theory Spec2Isabelle
  imports Main "HOL-Library.Sublist"
begin

section \<open>Environment configuration (eks\_platform/config/environment\_config.py)\<close>

text \<open>
  The dataclasses of \<^verbatim>\<open>environment_config.py\<close> as records. A field the classmethods
  \<^verbatim>\<open>development\<close> and \<^verbatim>\<open>fargate_development\<close> leave out takes the default written in
  the dataclass. \<^verbatim>\<open>account\<close> and \<^verbatim>\<open>region\<close> come from \<^verbatim>\<open>os.getenv\<close>, which
  returns \<^verbatim>\<open>None\<close> for an unset variable, hence the option type.
\<close>

record NetworkConfig =
  vpc_cidr :: string
  max_azs :: int
  nat_gateways :: int
  enable_flow_logs :: bool

record ComputeConfig =
  mode :: string
  fargate_profiles :: "string list"
  auto_mode_enabled :: bool

record EksConfig =
  cluster_name :: string
  version :: string
  compute :: ComputeConfig
  admin_user_arn :: "string option"
  admin_role_arn :: "string option"

record MonitoringConfig =
  prometheus_enabled :: bool
  grafana_enabled :: bool
  retention_days :: int
  scrape_interval :: string
  namespace :: string

record EnvironmentConfig =
  environment_name :: string
  account :: "string option"
  region :: "string option"
  network :: NetworkConfig
  eks :: EksConfig
  monitoring :: MonitoringConfig

definition development :: "string option \<Rightarrow> string option \<Rightarrow> EnvironmentConfig" where
  "development acct rgn =
     \<lparr> environment_name = ''dev'',
       account = acct,
       region = rgn,
       network = \<lparr> vpc_cidr = ''10.0.0.0/16'', max_azs = 2,
                   nat_gateways = 1, enable_flow_logs = False \<rparr>,
       eks = \<lparr> cluster_name = ''dev-eks-automode'',
               version = ''1.32'',
               compute = \<lparr> mode = ''auto-mode'',
                           fargate_profiles = [''default'', ''monitoring'', ''kube-system''],
                           auto_mode_enabled = True \<rparr>,
               admin_user_arn = Some ''arn:aws:iam::123456789:user/user-cli'',
               admin_role_arn = None \<rparr>,
       monitoring = \<lparr> prometheus_enabled = True, grafana_enabled = True,
                      retention_days = 7, scrape_interval = ''15s'',
                      namespace = ''monitoring'' \<rparr> \<rparr>"

definition fargate_development :: "string option \<Rightarrow> string option \<Rightarrow> EnvironmentConfig" where
  "fargate_development acct rgn =
     \<lparr> environment_name = ''dev-fargate'',
       account = acct,
       region = rgn,
       network = \<lparr> vpc_cidr = ''10.0.0.0/16'', max_azs = 2,
                   nat_gateways = 1, enable_flow_logs = False \<rparr>,
       eks = \<lparr> cluster_name = ''dev-eks-fargate'',
               version = ''1.32'',
               compute = \<lparr> mode = ''fargate'',
                           fargate_profiles =
                             [''default'', ''monitoring'', ''opentelemetry'', ''kube-system''],
                           auto_mode_enabled = False \<rparr>,
               admin_user_arn = Some ''arn:aws:iam::123456789:user/user-cli'',
               admin_role_arn = None \<rparr>,
       monitoring = \<lparr> prometheus_enabled = True, grafana_enabled = True,
                      retention_days = 7, scrape_interval = ''15s'',
                      namespace = ''monitoring'' \<rparr> \<rparr>"

text \<open>
  \<^verbatim>\<open>app.py\<close>, lines 31 and 41 to 44. The context value is absent (\<^verbatim>\<open>None\<close>) or a
  string; Python's \<^verbatim>\<open>or\<close> replaces both \<^verbatim>\<open>None\<close> and the empty string by
  \<^verbatim>\<open>"auto-mode"\<close>. The selection itself is a two-way branch with no error exit.
\<close>

definition compute_mode :: "string option \<Rightarrow> string" where
  "compute_mode ctx =
     (case ctx of
        None \<Rightarrow> ''auto-mode''
      | Some v \<Rightarrow> if v = [] then ''auto-mode'' else v)"

definition config :: "string \<Rightarrow> string option \<Rightarrow> string option \<Rightarrow> EnvironmentConfig" where
  "config selector acct rgn =
     (if selector = ''fargate'' then fargate_development acct rgn
      else development acct rgn)"


section \<open>The compute-enablement callback (auto\_mode\_lambda.py)\<close>

text \<open>
  The event is a dictionary. \<^verbatim>\<open>on_event\<close> subscripts it three times before it looks
  at the request type (lines 12 to 14): \<^verbatim>\<open>event['RequestType']\<close>,
  \<^verbatim>\<open>event['ResourceProperties']['ClusterName']\<close> and
  \<^verbatim>\<open>event['ResourceProperties']['NodeRoleArn']\<close>. A key that is absent is
  \<^verbatim>\<open>None\<close> here, and reading it raises \<^verbatim>\<open>KeyError\<close>. The request type is a plain
  string: the handler compares it with three literals and has no branch for anything
  else.
\<close>

record event =
  RequestType :: "string option"
  ResourceProperties :: "(string \<rightharpoonup> string) option"

text \<open>
  The keyword arguments of \<^verbatim>\<open>eks_client.update_cluster_config\<close>. An argument the
  call leaves out is \<^verbatim>\<open>None\<close>.
\<close>

record update_request =
  name :: string
  computeConfig_enabled :: bool
  computeConfig_nodeRoleArn :: "string option"
  computeConfig_nodePools :: "string list"
  elasticLoadBalancing_enabled :: "bool option"
  blockStorage_enabled :: "bool option"

record update_response =
  update_id :: string

text \<open>
  The exceptions: the \<^verbatim>\<open>KeyError\<close> of a failed subscript with the missing key, a
  botocore \<^verbatim>\<open>ClientError\<close> with its error code and message, and any other
  exception. The provider call can raise any of them.
\<close>

datatype exception =
  KeyError string
| ClientError string string
| OtherException string

record payload_data =
  UpdateId :: "string option"
  Status :: string

record payload =
  PhysicalResourceId :: string
  Data :: payload_data

text \<open>
  The two \<^verbatim>\<open>except\<close> clauses. A \<^verbatim>\<open>ClientError\<close> on a delete request whose code is
  \<^verbatim>\<open>ResourceNotFoundException\<close> becomes a payload; everything else is raised again.
\<close>

definition on_error :: "string \<Rightarrow> string \<Rightarrow> exception \<Rightarrow> exception + payload option" where
  "on_error request_type cluster e =
     (case e of
        ClientError code msg \<Rightarrow>
          if request_type = ''Delete'' then
            if code = ''ResourceNotFoundException'' then
              Inr (Some \<lparr> PhysicalResourceId = cluster @ ''-auto-mode'',
                          Data = \<lparr> UpdateId = None, Status = ''NOT_FOUND'' \<rparr> \<rparr>)
            else Inl e
          else Inl e
      | KeyError k \<Rightarrow> Inl e
      | OtherException msg \<Rightarrow> Inl e)"

definition enable_request :: "string \<Rightarrow> string \<Rightarrow> update_request" where
  "enable_request cluster node_role_arn =
     \<lparr> name = cluster,
       computeConfig_enabled = True,
       computeConfig_nodeRoleArn = Some node_role_arn,
       computeConfig_nodePools = [''general-purpose'', ''system''],
       elasticLoadBalancing_enabled = Some True,
       blockStorage_enabled = Some True \<rparr>"

definition disable_request :: "string \<Rightarrow> update_request" where
  "disable_request cluster =
     \<lparr> name = cluster,
       computeConfig_enabled = False,
       computeConfig_nodeRoleArn = None,
       computeConfig_nodePools = [],
       elasticLoadBalancing_enabled = None,
       blockStorage_enabled = None \<rparr>"

text \<open>
  \<^verbatim>\<open>on_event\<close>. The EKS client is the first argument. \<^verbatim>\<open>Inl\<close> is a raised
  exception; \<^verbatim>\<open>Inr None\<close> is Python falling off the end of the function, which
  returns \<^verbatim>\<open>None\<close>; \<^verbatim>\<open>Inr (Some p)\<close> is a returned dictionary. The three
  subscripts stand before the \<^verbatim>\<open>try\<close>, in this order, so their \<^verbatim>\<open>KeyError\<close>
  leaves the function whatever the request type is.
\<close>

definition on_event ::
  "(update_request \<Rightarrow> exception + update_response) \<Rightarrow> event \<Rightarrow> exception + payload option" where
  "on_event update_cluster_config ev =
     (case RequestType ev of
        None \<Rightarrow> Inl (KeyError ''RequestType'')
      | Some request_type \<Rightarrow>
     (case ResourceProperties ev of
        None \<Rightarrow> Inl (KeyError ''ResourceProperties'')
      | Some properties \<Rightarrow>
     (case properties ''ClusterName'' of
        None \<Rightarrow> Inl (KeyError ''ClusterName'')
      | Some cluster \<Rightarrow>
     (case properties ''NodeRoleArn'' of
        None \<Rightarrow> Inl (KeyError ''NodeRoleArn'')
      | Some node_role_arn \<Rightarrow>
        if request_type \<in> set [''Create'', ''Update''] then
          (case update_cluster_config (enable_request cluster node_role_arn) of
             Inr response \<Rightarrow>
               Inr (Some \<lparr> PhysicalResourceId = cluster @ ''-auto-mode'',
                           Data = \<lparr> UpdateId = Some (update_id response),
                                    Status = ''INITIATED'' \<rparr> \<rparr>)
           | Inl e \<Rightarrow> on_error request_type cluster e)
        else if request_type = ''Delete'' then
          (case update_cluster_config (disable_request cluster) of
             Inr response \<Rightarrow>
               Inr (Some \<lparr> PhysicalResourceId = cluster @ ''-auto-mode'',
                           Data = \<lparr> UpdateId = Some (update_id response),
                                    Status = ''DISABLED'' \<rparr> \<rparr>)
           | Inl e \<Rightarrow> on_error request_type cluster e)
        else Inr None))))"

text \<open>
  The cluster name and the node role of an event that carries both properties.
\<close>

definition properties_of :: "event \<Rightarrow> (string \<times> string) option" where
  "properties_of ev =
     (case ResourceProperties ev of
        None \<Rightarrow> None
      | Some properties \<Rightarrow>
          (case properties ''ClusterName'' of
             None \<Rightarrow> None
           | Some cluster \<Rightarrow>
               (case properties ''NodeRoleArn'' of
                  None \<Rightarrow> None
                | Some node_role_arn \<Rightarrow> Some (cluster, node_role_arn))))"


section \<open>Compute-mode branching in the constructs\<close>

text \<open>
  \<^verbatim>\<open>_get_pod_spec\<close> is the dictionary spliced into the pod spec of a Deployment. The
  same method body stands in \<^verbatim>\<open>SampleAppConstruct\<close>, \<^verbatim>\<open>OtelAppConstruct\<close>,
  \<^verbatim>\<open>GoOtelAppConstruct\<close>, \<^verbatim>\<open>JavaOtelAppConstruct\<close> and \<^verbatim>\<open>PrometheusConstruct\<close>.
  A key the dictionary does not hold is \<^verbatim>\<open>None\<close> here. \<^verbatim>\<open>compute_config\<close>
  defaults to \<^verbatim>\<open>None\<close> in every constructor, and \<^verbatim>\<open>None\<close> is falsy.
\<close>

record toleration =
  tol_key :: string
  tol_operator :: string
  tol_value :: string
  tol_effect :: string

record pod_spec =
  nodeSelector :: "(string \<times> string) list option"
  tolerations :: "toleration list option"

definition get_pod_spec :: "ComputeConfig option \<Rightarrow> pod_spec" where
  "get_pod_spec compute_config =
     (case compute_config of
        None \<Rightarrow> \<lparr> nodeSelector = None, tolerations = None \<rparr>
      | Some c \<Rightarrow>
          if mode c = ''fargate'' then
            \<lparr> nodeSelector = Some [(''eks.amazonaws.com/compute-type'', ''fargate'')],
              tolerations = Some [\<lparr> tol_key = ''eks.amazonaws.com/compute-type'',
                                     tol_operator = ''Equal'',
                                     tol_value = ''fargate'',
                                     tol_effect = ''NoSchedule'' \<rparr>] \<rparr>
          else \<lparr> nodeSelector = None, tolerations = None \<rparr>)"

text \<open>
  \<^verbatim>\<open>PrometheusAdapterConstruct._get_tolerations\<close>: the value of the
  \<^verbatim>\<open>tolerations\<close> key of the adapter's pod spec, which has no \<^verbatim>\<open>nodeSelector\<close> key.
\<close>

definition get_tolerations :: "string \<Rightarrow> toleration list" where
  "get_tolerations compute_mode_arg =
     (if compute_mode_arg = ''fargate'' then
        [\<lparr> tol_key = ''eks.amazonaws.com/compute-type'', tol_operator = ''Equal'',
           tol_value = ''fargate'', tol_effect = ''NoSchedule'' \<rparr>]
      else
        [\<lparr> tol_key = ''eks.amazonaws.com/compute-type'', tol_operator = ''Equal'',
           tol_value = ''prometheus-adapter'', tol_effect = ''NoSchedule'' \<rparr>])"

text \<open>
  The placement keys of the pod spec in the adapter's Deployment manifest
  (\<^verbatim>\<open>prometheus_adapter_construct.py\<close>, lines 147 to 149): \<^verbatim>\<open>tolerations\<close> is
  always present, \<^verbatim>\<open>nodeSelector\<close> never.
\<close>

definition prometheus_adapter_pod_spec :: "string \<Rightarrow> pod_spec" where
  "prometheus_adapter_pod_spec compute_mode_arg =
     \<lparr> nodeSelector = None, tolerations = Some (get_tolerations compute_mode_arg) \<rparr>"

text \<open>
  The two rule documents, character for character: each source line of the triple-quoted
  literal is one string ending in a newline.
\<close>

definition get_auto_mode_config :: string where
  \<open>get_auto_mode_config =
     ''\<newline>'' @
     ''rules:\<newline>'' @
     ''# Java OTEL App - using http_requests_total\<newline>'' @
     ''- seriesQuery: 'http_requests_total{app="java-otel-sample-app"}'\<newline>'' @
     ''  resources:\<newline>'' @
     ''    overrides:\<newline>'' @
     ''      kubernetes_namespace: {resource: "namespace"}\<newline>'' @
     ''      kubernetes_pod_name: {resource: "pod"}\<newline>'' @
     ''  name:\<newline>'' @
     ''    as: "java_app_requests_rate"\<newline>'' @
     ''  metricsQuery: 'rate(http_requests_total{app="java-otel-sample-app",<<.LabelMatchers>>}[1m]) * 60'\<newline>'' @
     ''\<newline>'' @
     ''# Go OTEL App - using http_requests_total\<newline>'' @
     ''- seriesQuery: 'http_requests_total{app="go-otel-sample-app"}'\<newline>'' @
     ''  resources:\<newline>'' @
     ''    overrides:\<newline>'' @
     ''      kubernetes_namespace: {resource: "namespace"}\<newline>'' @
     ''      kubernetes_pod_name: {resource: "pod"}\<newline>'' @
     ''  name:\<newline>'' @
     ''    as: "go_app_requests_rate"\<newline>'' @
     ''  metricsQuery: 'rate(http_requests_total{app="go-otel-sample-app",<<.LabelMatchers>>}[1m]) * 60'\<newline>'' @
     ''\<newline>'' @
     ''# Sample Metrics App - using sample_app_requests_total\<newline>'' @
     ''- seriesQuery: 'sample_app_requests_total{app="sample-metrics-app"}'\<newline>'' @
     ''  resources:\<newline>'' @
     ''    overrides:\<newline>'' @
     ''      kubernetes_namespace: {resource: "namespace"}\<newline>'' @
     ''      kubernetes_pod_name: {resource: "pod"}\<newline>'' @
     ''  name:\<newline>'' @
     ''    as: "sample_app_requests_rate"\<newline>'' @
     ''  metricsQuery: 'rate(sample_app_requests_total{app="sample-metrics-app",<<.LabelMatchers>>}[1m]) * 60'\<newline>'' @
     ''\<newline>'' @
     ''# OTEL Sample App - using pod_cpu_utilization\<newline>'' @
     ''- seriesQuery: 'pod_cpu_utilization{app="otel-sample-app"}'\<newline>'' @
     ''  resources:\<newline>'' @
     ''    overrides:\<newline>'' @
     ''      kubernetes_namespace: {resource: "namespace"}\<newline>'' @
     ''      kubernetes_pod_name: {resource: "pod"}\<newline>'' @
     ''  name:\<newline>'' @
     ''    as: "pod_cpu_utilization"\<newline>'' @
     ''  metricsQuery: 'pod_cpu_utilization{app="otel-sample-app",<<.LabelMatchers>>}'\<newline>''\<close>

definition get_fargate_config :: string where
  \<open>get_fargate_config =
     ''\<newline>'' @
     ''rules:\<newline>'' @
     ''# Java OTEL App - Fargate (same as auto-mode, metrics don't have compute_type label)\<newline>'' @
     ''- seriesQuery: 'http_requests_total{app="java-otel-sample-app"}'\<newline>'' @
     ''  resources:\<newline>'' @
     ''    overrides:\<newline>'' @
     ''      kubernetes_namespace: {resource: "namespace"}\<newline>'' @
     ''      kubernetes_pod_name: {resource: "pod"}\<newline>'' @
     ''  name:\<newline>'' @
     ''    as: "java_app_requests_rate"\<newline>'' @
     ''  metricsQuery: 'rate(http_requests_total{app="java-otel-sample-app",<<.LabelMatchers>>}[1m]) * 60'\<newline>'' @
     ''\<newline>'' @
     ''# Go OTEL App - Fargate\<newline>'' @
     ''- seriesQuery: 'http_requests_total{app="go-otel-sample-app"}'\<newline>'' @
     ''  resources:\<newline>'' @
     ''    overrides:\<newline>'' @
     ''      kubernetes_namespace: {resource: "namespace"}\<newline>'' @
     ''      kubernetes_pod_name: {resource: "pod"}\<newline>'' @
     ''  name:\<newline>'' @
     ''    as: "go_app_requests_rate"\<newline>'' @
     ''  metricsQuery: 'rate(http_requests_total{app="go-otel-sample-app",<<.LabelMatchers>>}[1m]) * 60'\<newline>'' @
     ''\<newline>'' @
     ''# Sample Metrics App - Fargate\<newline>'' @
     ''- seriesQuery: 'sample_app_requests_total{app="sample-metrics-app"}'\<newline>'' @
     ''  resources:\<newline>'' @
     ''    overrides:\<newline>'' @
     ''      kubernetes_namespace: {resource: "namespace"}\<newline>'' @
     ''      kubernetes_pod_name: {resource: "pod"}\<newline>'' @
     ''  name:\<newline>'' @
     ''    as: "sample_app_requests_rate"\<newline>'' @
     ''  metricsQuery: 'rate(sample_app_requests_total{app="sample-metrics-app",<<.LabelMatchers>>}[1m]) * 60'\<newline>'' @
     ''\<newline>'' @
     ''# OTEL Sample App - Fargate CPU utilization\<newline>'' @
     ''- seriesQuery: 'pod_cpu_utilization{app="otel-sample-app"}'\<newline>'' @
     ''  resources:\<newline>'' @
     ''    overrides:\<newline>'' @
     ''      kubernetes_namespace: {resource: "namespace"}\<newline>'' @
     ''      kubernetes_pod_name: {resource: "pod"}\<newline>'' @
     ''  name:\<newline>'' @
     ''    as: "pod_cpu_utilization"\<newline>'' @
     ''  metricsQuery: 'pod_cpu_utilization{app="otel-sample-app",<<.LabelMatchers>>}'\<newline>''\<close>

definition get_adapter_config :: "string \<Rightarrow> string" where
  "get_adapter_config compute_mode_arg =
     (if compute_mode_arg = ''fargate'' then get_fargate_config else get_auto_mode_config)"


text \<open>
  The adapter reads the document it is given as YAML, where a line whose first
  character after leading blanks is \<^verbatim>\<open>#\<close> is a comment and carries no rule.
  \<^verbatim>\<open>split_lines\<close> cuts a document at its newlines, as \<^verbatim>\<open>str.splitlines\<close> does for
  \<^verbatim>\<open>\n\<close>, and \<^verbatim>\<open>rule_lines\<close> keeps the lines that are not comments: the rule
  set that a document attaches.
\<close>

fun add_char :: "char \<Rightarrow> string list \<Rightarrow> string list" where
  "add_char c [] = [[c]]"
| "add_char c (l # ls) = (c # l) # ls"

fun split_lines :: "string \<Rightarrow> string list" where
  "split_lines [] = []"
| "split_lines (c # cs) =
     (if c = CHR 0x0A then [] # split_lines cs else add_char c (split_lines cs))"

definition is_comment :: "string \<Rightarrow> bool" where
  "is_comment l =
     (case dropWhile (\<lambda>c. c = CHR '' '') l of [] \<Rightarrow> False | c # cs \<Rightarrow> c = CHR ''#'')"

definition rule_lines :: "string \<Rightarrow> string list" where
  "rule_lines document = filter (\<lambda>l. \<not> is_comment l) (split_lines document)"


section \<open>The declared constructs and their dependency edges\<close>

text \<open>
  A construct is identified by its path in the construct tree: the identifiers from the
  root (the \<^verbatim>\<open>App\<close>, the empty path) down to the construct. Constructing
  \<^verbatim>\<open>C(scope, id)\<close> declares the path of \<^verbatim>\<open>scope\<close> followed by \<^verbatim>\<open>id\<close>. The
  methods \<^verbatim>\<open>cluster.add_manifest(id, ...)\<close>, \<^verbatim>\<open>cluster.add_service_account(id, ...)\<close>
  and \<^verbatim>\<open>cluster.add_fargate_profile(id, ...)\<close> are called on the cluster and are
  handed nothing but the identifier and a payload, so what they declare lies in the scope
  of the cluster, whichever construct's \<^verbatim>\<open>__init__\<close> makes the call. The library
  puts a fixed prefix before the identifier it is given (\<^verbatim>\<open>manifest-\<close>,
  \<^verbatim>\<open>fargate-profile-\<close>); the prefix is the same at every call and is left out.

  The build is a sequence of declarations, in source order. \<^verbatim>\<open>DependsOn s p\<close> is
  the call \<^verbatim>\<open>s.node.add_dependency(p)\<close> (or \<^verbatim>\<open>s.add_dependency(p)\<close> between
  stacks): \<^verbatim>\<open>s\<close> is the successor and \<^verbatim>\<open>p\<close> the predecessor. Only the edges the
  repository's own code declares are recorded. The children that library constructs
  create for themselves and the children of the four stacks other than
  \<^verbatim>\<open>EksClusterStack\<close> are not enumerated; no \<^verbatim>\<open>add_dependency\<close> call of the
  repository names any of them.
\<close>

type_synonym path = "string list"

datatype decl =
  Declare path
| DependsOn path path

fun nodes_of :: "decl list \<Rightarrow> path list" where
  "nodes_of [] = []"
| "nodes_of (Declare p # ds) = p # nodes_of ds"
| "nodes_of (DependsOn s p # ds) = nodes_of ds"

fun edges_of :: "decl list \<Rightarrow> (path \<times> path) list" where
  "edges_of [] = []"
| "edges_of (Declare p # ds) = edges_of ds"
| "edges_of (DependsOn s p # ds) = (s, p) # edges_of ds"

text \<open>
  A dependency between two constructs orders every construct in the scope of the
  successor after every construct in the scope of the predecessor. \<^verbatim>\<open>depends_on ds r p\<close>:
  the declared construct \<^verbatim>\<open>r\<close> has to wait for the declared construct \<^verbatim>\<open>p\<close>.
  \<^verbatim>\<open>precedes ds p r\<close>: there is a path of such edges from \<^verbatim>\<open>r\<close> to \<^verbatim>\<open>p\<close>.
  The relation ranges over all declared constructs, whether or not they stand for a
  provisioned resource, so it holds at least the orderings between resources.
\<close>

definition depends_on :: "decl list \<Rightarrow> path \<Rightarrow> path \<Rightarrow> bool" where
  "depends_on ds r p =
     (r \<in> set (nodes_of ds) \<and> p \<in> set (nodes_of ds) \<and>
      list_ex (\<lambda>(s, t). prefix s r \<and> prefix t p) (edges_of ds))"

definition dependency :: "decl list \<Rightarrow> (path \<times> path) set" where
  "dependency ds =
     set (filter (\<lambda>(r, p). depends_on ds r p) (List.product (nodes_of ds) (nodes_of ds)))"

definition precedes :: "decl list \<Rightarrow> path \<Rightarrow> path \<Rightarrow> bool" where
  "precedes ds p r = ((r, p) \<in> (dependency ds)\<^sup>+)"

text \<open>
  A test that a list \<^verbatim>\<open>S\<close> of constructs is closed under waiting-for: every edge
  whose successor has a member of \<^verbatim>\<open>S\<close> in its scope has its predecessor in
  \<^verbatim>\<open>S\<close>, and every declared construct in the scope of a member of \<^verbatim>\<open>S\<close> is in
  \<^verbatim>\<open>S\<close>. A closed list that holds \<^verbatim>\<open>r\<close> holds every predecessor of \<^verbatim>\<open>r\<close>.
\<close>

definition edge_ok :: "path list \<Rightarrow> path \<times> path \<Rightarrow> bool" where
  "edge_ok S e = (if list_ex (prefix (fst e)) S then snd e \<in> set S else True)"

definition node_ok :: "path list \<Rightarrow> path \<Rightarrow> bool" where
  "node_ok S p = (if list_ex (\<lambda>t. prefix t p) S then p \<in> set S else True)"

definition closed_under :: "decl list \<Rightarrow> path list \<Rightarrow> bool" where
  "closed_under ds S =
     (list_all (edge_ok S) (edges_of ds) \<and> list_all (node_ok S) (nodes_of ds))"

subsection \<open>Identifiers computed from the mode string\<close>

text \<open>
  \<^verbatim>\<open>mode.replace('-', '').title()\<close>. \<^verbatim>\<open>str.title\<close> upper-cases a cased character
  that follows an uncased one (or starts the string) and lower-cases one that follows a
  cased character. The mode strings are ASCII, and so is the alphabet here.
\<close>

definition remove_dashes :: "string \<Rightarrow> string" where
  "remove_dashes s = filter (\<lambda>c. c \<noteq> CHR ''-'') s"

definition to_upper :: "char \<Rightarrow> char" where
  "to_upper c =
     (case map_of (zip ''abcdefghijklmnopqrstuvwxyz'' ''ABCDEFGHIJKLMNOPQRSTUVWXYZ'') c of
        Some u \<Rightarrow> u
      | None \<Rightarrow> c)"

definition to_lower :: "char \<Rightarrow> char" where
  "to_lower c =
     (case map_of (zip ''ABCDEFGHIJKLMNOPQRSTUVWXYZ'' ''abcdefghijklmnopqrstuvwxyz'') c of
        Some l \<Rightarrow> l
      | None \<Rightarrow> c)"

definition is_cased :: "char \<Rightarrow> bool" where
  "is_cased c = (c \<in> set ''abcdefghijklmnopqrstuvwxyzABCDEFGHIJKLMNOPQRSTUVWXYZ'')"

fun title_from :: "bool \<Rightarrow> string \<Rightarrow> string" where
  "title_from previous_is_cased [] = []"
| "title_from previous_is_cased (c # cs) =
     (if is_cased c then
        (if previous_is_cased then to_lower c else to_upper c) # title_from True cs
      else c # title_from False cs)"

definition title :: "string \<Rightarrow> string" where
  "title s = title_from False s"

definition mode_prefix :: "EksConfig \<Rightarrow> string" where
  "mode_prefix eks_config = title (remove_dashes (mode (compute eks_config)))"

subsection \<open>EksClusterStack (eks\_cluster\_stack.py)\<close>

definition cluster_id :: "EksConfig \<Rightarrow> string" where
  "cluster_id eks_config =
     (if mode (compute eks_config) = ''fargate''
      then ''FargateCluster'' @ mode_prefix eks_config
      else ''AutoModeCluster'' @ mode_prefix eks_config)"

definition cluster_of :: "path \<Rightarrow> EksConfig \<Rightarrow> path" where
  "cluster_of stack eks_config = stack @ [cluster_id eks_config]"

definition monitoring_namespace_of :: "path \<Rightarrow> EksConfig \<Rightarrow> path" where
  "monitoring_namespace_of stack eks_config =
     cluster_of stack eks_config @ [mode_prefix eks_config @ ''MonitoringNamespace'']"

definition opentelemetry_namespace_of :: "path \<Rightarrow> EksConfig \<Rightarrow> path" where
  "opentelemetry_namespace_of stack eks_config =
     cluster_of stack eks_config @ [mode_prefix eks_config @ ''OpenTelemetryNamespace'']"

definition fargate_profile_of :: "path \<Rightarrow> EksConfig \<Rightarrow> string \<Rightarrow> path" where
  "fargate_profile_of stack eks_config ns =
     cluster_of stack eks_config @ [ns @ ''-fargate-profile'']"

text \<open>
  The path of the manifest that \<^verbatim>\<open>cluster.add_manifest(manifest_id, ...)\<close> declares
  in the build for the context value \<^verbatim>\<open>ctx\<close>; the stack is always constructed with
  the identifier \<^verbatim>\<open>EksClusterStack\<close>.
\<close>

definition manifest_of :: "string option \<Rightarrow> string \<Rightarrow> path" where
  "manifest_of ctx manifest_id =
     cluster_of [''EksClusterStack''] (eks (config (compute_mode ctx) None None)) @
       [manifest_id]"

definition create_namespaces :: "path \<Rightarrow> EksConfig \<Rightarrow> decl list" where
  "create_namespaces stack eks_config =
     [Declare (monitoring_namespace_of stack eks_config),
      Declare (opentelemetry_namespace_of stack eks_config)]"

definition ensure_fargate_namespaces_ready :: "path \<Rightarrow> EksConfig \<Rightarrow> decl list" where
  "ensure_fargate_namespaces_ready stack eks_config =
     map (\<lambda>ns. Declare (fargate_profile_of stack eks_config ns))
         (fargate_profiles (compute eks_config))"

definition enable_auto_mode :: "path \<Rightarrow> EksConfig \<Rightarrow> decl list" where
  "enable_auto_mode stack eks_config =
     (let auto_mode_enabler = stack @ [''EnableAutoMode'']
      in [Declare (stack @ [''AutoModeLambdaRole'']),
          Declare (stack @ [''AutoModeLambda'']),
          Declare (stack @ [''AutoModeProvider'']),
          Declare auto_mode_enabler,
          DependsOn auto_mode_enabler (cluster_of stack eks_config)])"

definition configure_admin_access :: "path \<Rightarrow> EksConfig \<Rightarrow> decl list" where
  "configure_admin_access stack eks_config =
     (if admin_user_arn eks_config \<notin> {None, Some []}
      then [Declare (stack @ [''AdminUser''])] else []) @
     (if admin_role_arn eks_config \<notin> {None, Some []}
      then [Declare (stack @ [''AdminRole''])] else [])"

text \<open>
  \<^verbatim>\<open>hasattr(self, 'auto_mode_enabler')\<close> holds exactly when \<^verbatim>\<open>_enable_auto_mode\<close>
  has run, that is when the mode is \<^verbatim>\<open>"auto-mode"\<close>.
\<close>

definition add_cluster_addons :: "path \<Rightarrow> bool \<Rightarrow> decl list" where
  "add_cluster_addons stack has_auto_mode_enabler =
     (let addon_prefix = (if has_auto_mode_enabler then ''AutoMode'' else ''Fargate'');
          coredns_addon = stack @ [addon_prefix @ ''CoreDnsAddon''];
          pod_identity_addon = stack @ [addon_prefix @ ''PodIdentityAgentAddon''];
          vpc_cni_addon = stack @ [addon_prefix @ ''VpcCniAddon''];
          kube_proxy_addon = stack @ [addon_prefix @ ''KubeProxyAddon''];
          auto_mode_enabler = stack @ [''EnableAutoMode'']
      in [Declare coredns_addon,
          Declare pod_identity_addon,
          Declare vpc_cni_addon,
          Declare kube_proxy_addon] @
         (if has_auto_mode_enabler then
            [DependsOn coredns_addon auto_mode_enabler,
             DependsOn pod_identity_addon auto_mode_enabler,
             DependsOn vpc_cni_addon auto_mode_enabler,
             DependsOn kube_proxy_addon auto_mode_enabler]
          else []))"

definition EksClusterStack :: "path \<Rightarrow> string \<Rightarrow> EksConfig \<Rightarrow> decl list" where
  "EksClusterStack scope construct_id eks_config =
     (let self = scope @ [construct_id]
      in [Declare self,
          Declare (self @ [''EksClusterServiceRole'']),
          Declare (self @ [''EksNodeGroupServiceRole'']),
          Declare (self @ [''ComputeModeChanged'']),
          Declare (cluster_of self eks_config)] @
         create_namespaces self eks_config @
         (if mode (compute eks_config) = ''fargate''
          then ensure_fargate_namespaces_ready self eks_config else []) @
         (if mode (compute eks_config) = ''auto-mode''
          then enable_auto_mode self eks_config else []) @
         configure_admin_access self eks_config @
         [Declare (self @ [''ClusterCreatorAccessEntry''])] @
         add_cluster_addons self (mode (compute eks_config) = ''auto-mode'') @
         [Declare (self @ [''AdotConditionsJson'']),
          Declare (self @ [''AdotCollectorRole'']),
          Declare (cluster_of self eks_config @ [''ClusterLogging'']),
          Declare (self @ [''ClusterName'']),
          Declare (self @ [''ClusterEndpoint'']),
          Declare (self @ [''ClusterArn'']),
          Declare (self @ [''KubectlConfigCommand'']),
          Declare (self @ [''AutoModeStatus'']),
          Declare (self @ [''AdotRoleArn'']),
          Declare (self @ [''ClusterServiceRoleArn''])])"

subsection \<open>PrometheusConstruct and PrometheusAdapterConstruct\<close>

text \<open>
  Both constructors take an optional \<^verbatim>\<open>monitoring_namespace\<close> and declare a namespace
  manifest of their own when it is \<^verbatim>\<open>None\<close>. The only construct declared with
  \<^verbatim>\<open>self\<close> as its scope is the \<^verbatim>\<open>CfnOutput\<close> of \<^verbatim>\<open>PrometheusConstruct\<close>; the
  \<^verbatim>\<open>CfnOutput\<close> written in \<^verbatim>\<open>PrometheusAdapterConstruct._get_tolerations\<close> stands
  after both \<^verbatim>\<open>return\<close> statements and is never reached.
\<close>

definition PrometheusConstruct :: "path \<Rightarrow> string \<Rightarrow> path \<Rightarrow> path option \<Rightarrow> decl list" where
  "PrometheusConstruct scope construct_id cluster monitoring_namespace =
     (let self = scope @ [construct_id];
          self_monitoring_namespace =
            (case monitoring_namespace of
               None \<Rightarrow> cluster @ [''MonitoringNamespacePrometheus'']
             | Some n \<Rightarrow> n);
          prometheus_sa = cluster @ [''prometheus-sa''];
          cluster_role = cluster @ [''PrometheusClusterRole''];
          cluster_role_binding = cluster @ [''PrometheusClusterRoleBinding''];
          prometheus_config = cluster @ [''PrometheusConfigMap''];
          prometheus_deployment = cluster @ [''PrometheusDeployment''];
          prometheus_service = cluster @ [''PrometheusService'']
      in [Declare self] @
         (case monitoring_namespace of
            None \<Rightarrow> [Declare self_monitoring_namespace]
          | Some n \<Rightarrow> []) @
         [Declare prometheus_sa,
          DependsOn prometheus_sa self_monitoring_namespace,
          Declare cluster_role,
          Declare cluster_role_binding,
          DependsOn cluster_role_binding cluster_role,
          DependsOn cluster_role_binding self_monitoring_namespace,
          Declare prometheus_config,
          DependsOn prometheus_config self_monitoring_namespace,
          Declare prometheus_deployment,
          DependsOn prometheus_deployment prometheus_config,
          DependsOn prometheus_deployment prometheus_sa,
          DependsOn prometheus_deployment cluster_role_binding,
          Declare prometheus_service,
          DependsOn prometheus_service prometheus_deployment,
          Declare (self @ [''PrometheusServiceName''])])"

definition PrometheusAdapterConstruct ::
  "path \<Rightarrow> string \<Rightarrow> path \<Rightarrow> path option \<Rightarrow> decl list" where
  "PrometheusAdapterConstruct scope construct_id cluster monitoring_namespace =
     (let self = scope @ [construct_id];
          self_monitoring_namespace =
            (case monitoring_namespace of
               None \<Rightarrow> cluster @ [''MonitoringNamespacePrometheus'']
             | Some n \<Rightarrow> n);
          prometheus_adapter_sa = cluster @ [''prometheus-adapter-sa''];
          prometheus_adapter_role = cluster @ [''PrometheusAdapterRole''];
          prometheus_adapter_binding = cluster @ [''PrometheusAdapterBinding''];
          prometheus_adapter_config = cluster @ [''PrometheusAdapterConfig''];
          prometheus_adapter_deployment = cluster @ [''PrometheusAdapterDeployment''];
          prometheus_adapter_service = cluster @ [''PrometheusAdapterService''];
          prometheus_adapter_apiservice = cluster @ [''PrometheusAdapterAPIService'']
      in [Declare self] @
         (case monitoring_namespace of
            None \<Rightarrow> [Declare self_monitoring_namespace]
          | Some n \<Rightarrow> []) @
         [Declare prometheus_adapter_sa,
          Declare prometheus_adapter_role,
          Declare prometheus_adapter_binding,
          Declare prometheus_adapter_config,
          Declare prometheus_adapter_deployment,
          Declare prometheus_adapter_service,
          Declare prometheus_adapter_apiservice,
          DependsOn prometheus_adapter_deployment prometheus_adapter_config,
          DependsOn prometheus_adapter_deployment prometheus_adapter_sa,
          DependsOn prometheus_adapter_service prometheus_adapter_deployment,
          DependsOn prometheus_adapter_apiservice prometheus_adapter_service])"

subsection \<open>The workload constructs\<close>

definition SampleAppConstruct :: "path \<Rightarrow> string \<Rightarrow> path \<Rightarrow> decl list" where
  "SampleAppConstruct scope construct_id cluster =
     (let self = scope @ [construct_id];
          app_deployment = cluster @ [''SampleMetricsAppDeployment''];
          app_service = cluster @ [''SampleMetricsAppService''];
          sample_hpa = cluster @ [''SampleMetricsAppHPA'']
      in [Declare self,
          Declare app_deployment,
          Declare app_service,
          DependsOn app_service app_deployment,
          Declare sample_hpa,
          DependsOn sample_hpa app_deployment])"

definition OtelAppConstruct :: "path \<Rightarrow> string \<Rightarrow> path \<Rightarrow> path \<Rightarrow> decl list" where
  "OtelAppConstruct scope construct_id cluster opentelemetry_namespace =
     (let self = scope @ [construct_id];
          service_account = cluster @ [''OtelCollectorSA''];
          cluster_role = cluster @ [''OtelCollectorRole''];
          cluster_role_binding = cluster @ [''OtelCollectorRoleBinding''];
          collector_config = cluster @ [''OtelCollectorConfig''];
          collector_deployment = cluster @ [''OtelCollectorDeployment''];
          collector_service = cluster @ [''OtelCollectorService''];
          app_deployment = cluster @ [''OtelSampleAppDeployment''];
          app_service = cluster @ [''OtelSampleAppService''];
          otel_hpa = cluster @ [''OtelSampleAppHPA'']
      in [Declare self,
          Declare service_account,
          DependsOn service_account opentelemetry_namespace,
          Declare cluster_role,
          Declare cluster_role_binding,
          DependsOn cluster_role_binding cluster_role,
          DependsOn cluster_role_binding service_account,
          Declare collector_config,
          DependsOn collector_config opentelemetry_namespace,
          Declare collector_deployment,
          DependsOn collector_deployment collector_config,
          DependsOn collector_deployment cluster_role_binding,
          Declare collector_service,
          DependsOn collector_service collector_deployment,
          Declare app_deployment,
          DependsOn app_deployment collector_service,
          Declare app_service,
          DependsOn app_service app_deployment,
          Declare otel_hpa,
          DependsOn otel_hpa app_deployment])"

definition GoOtelAppConstruct :: "path \<Rightarrow> string \<Rightarrow> path \<Rightarrow> decl list" where
  "GoOtelAppConstruct scope construct_id cluster =
     (let self = scope @ [construct_id];
          app_deployment = cluster @ [''GoOtelAppDeployment''];
          app_service = cluster @ [''GoOtelAppService''];
          go_hpa = cluster @ [''GoOtelAppHPA'']
      in [Declare self,
          Declare app_deployment,
          Declare app_service,
          DependsOn app_service app_deployment,
          Declare go_hpa,
          DependsOn go_hpa app_deployment])"

definition JavaOtelAppConstruct :: "path \<Rightarrow> string \<Rightarrow> path \<Rightarrow> decl list" where
  "JavaOtelAppConstruct scope construct_id cluster =
     (let self = scope @ [construct_id];
          app_deployment = cluster @ [''JavaOtelSampleAppDeployment''];
          app_service = cluster @ [''JavaOtelSampleAppService''];
          java_hpa = cluster @ [''JavaOtelSampleAppHPA'']
      in [Declare self,
          Declare app_deployment,
          Declare app_service,
          DependsOn app_service app_deployment,
          Declare java_hpa,
          DependsOn java_hpa app_deployment])"

subsection \<open>The build script (app.py)\<close>

text \<open>
  \<^verbatim>\<open>app ctx acct rgn\<close> is the whole of \<^verbatim>\<open>app.py\<close> for the context value
  \<^verbatim>\<open>ctx\<close> of \<^verbatim>\<open>compute_mode\<close> and the two environment variables. The account and
  the region reach only manifest payloads and ARNs, never an identifier or an edge.
\<close>

definition app :: "string option \<Rightarrow> string option \<Rightarrow> string option \<Rightarrow> decl list" where
  "app ctx acct rgn =
     (let cfg = config (compute_mode ctx) acct rgn;
          vpc_stack = [''NetworkStack''];
          kubectl_layer_stack = [''KubectlLayerStack''];
          observability_stack = [''ObservabilityStack''];
          ecr_stack = [''EcrStack''];
          eks_cluster_stack = [''EksClusterStack''];
          cluster = cluster_of eks_cluster_stack (eks cfg);
          monitoring_namespace = monitoring_namespace_of eks_cluster_stack (eks cfg);
          opentelemetry_namespace = opentelemetry_namespace_of eks_cluster_stack (eks cfg);
          prometheus = eks_cluster_stack @ [''Prometheus''];
          prometheus_adapter = eks_cluster_stack @ [''PrometheusAdapter''];
          sample_app = eks_cluster_stack @ [''SampleMetricsApp''];
          otel_app = eks_cluster_stack @ [''OtelSampleApp''];
          go_otel_app = eks_cluster_stack @ [''GoOtelSampleApp''];
          java_otel_app = eks_cluster_stack @ [''JavaOtelSampleApp'']
      in [Declare vpc_stack,
          Declare kubectl_layer_stack,
          Declare observability_stack,
          Declare ecr_stack] @
         EksClusterStack [] ''EksClusterStack'' (eks cfg) @
         PrometheusConstruct eks_cluster_stack ''Prometheus'' cluster
           (Some monitoring_namespace) @
         [DependsOn prometheus eks_cluster_stack,
          DependsOn prometheus monitoring_namespace] @
         PrometheusAdapterConstruct eks_cluster_stack ''PrometheusAdapter'' cluster None @
         [DependsOn prometheus_adapter eks_cluster_stack,
          DependsOn prometheus_adapter prometheus,
          DependsOn prometheus_adapter monitoring_namespace] @
         SampleAppConstruct eks_cluster_stack ''SampleMetricsApp'' cluster @
         [DependsOn sample_app prometheus_adapter] @
         OtelAppConstruct eks_cluster_stack ''OtelSampleApp'' cluster
           opentelemetry_namespace @
         [DependsOn otel_app opentelemetry_namespace,
          DependsOn otel_app prometheus_adapter] @
         GoOtelAppConstruct eks_cluster_stack ''GoOtelSampleApp'' cluster @
         [DependsOn go_otel_app prometheus_adapter] @
         JavaOtelAppConstruct eks_cluster_stack ''JavaOtelSampleApp'' cluster @
         [DependsOn java_otel_app prometheus_adapter] @
         [DependsOn eks_cluster_stack vpc_stack,
          DependsOn eks_cluster_stack kubectl_layer_stack,
          DependsOn eks_cluster_stack observability_stack])"


subsection \<open>Sets of constructs used to bound predecessors\<close>

text \<open>
  \<^verbatim>\<open>other_stacks\<close>: the three stacks that \<^verbatim>\<open>EksClusterStack\<close> is made to depend on at
  the end of \<^verbatim>\<open>app.py\<close>. \<^verbatim>\<open>workload_predecessors\<close>: the autoscalers and Deployments
  of the four workloads with the collector chain of the OpenTelemetry sample app.
  \<^verbatim>\<open>service_predecessors\<close>: the same with the workload Services in place of the
  autoscalers. \<^verbatim>\<open>adapter_predecessors\<close>: the manifests of the Prometheus adapter
  that have a declared edge, and its ClusterRoleBinding. \<^verbatim>\<open>profile_predecessors\<close>:
  the Fargate profiles of the configured list. Each set also holds \<^verbatim>\<open>other_stacks\<close>.
\<close>

definition other_stacks :: "path list" where
  "other_stacks = [[''NetworkStack''], [''KubectlLayerStack''], [''ObservabilityStack'']]"

definition collector_chain :: "string option \<Rightarrow> path list" where
  "collector_chain ctx =
     map (manifest_of ctx)
       [''OtelCollectorService'', ''OtelCollectorDeployment'', ''OtelCollectorConfig'',
        ''OtelCollectorRoleBinding'', ''OtelCollectorRole'', ''OtelCollectorSA''] @
     [opentelemetry_namespace_of [''EksClusterStack'']
        (eks (config (compute_mode ctx) None None))]"

definition workload_predecessors :: "string option \<Rightarrow> path list" where
  "workload_predecessors ctx =
     map (manifest_of ctx)
       [''SampleMetricsAppHPA'', ''SampleMetricsAppDeployment'',
        ''OtelSampleAppHPA'', ''OtelSampleAppDeployment'',
        ''GoOtelAppHPA'', ''GoOtelAppDeployment'',
        ''JavaOtelSampleAppHPA'', ''JavaOtelSampleAppDeployment''] @
     collector_chain ctx @ other_stacks"

definition service_predecessors :: "string option \<Rightarrow> path list" where
  "service_predecessors ctx =
     map (manifest_of ctx)
       [''SampleMetricsAppService'', ''SampleMetricsAppDeployment'',
        ''OtelSampleAppService'', ''OtelSampleAppDeployment'',
        ''GoOtelAppService'', ''GoOtelAppDeployment'',
        ''JavaOtelSampleAppService'', ''JavaOtelSampleAppDeployment''] @
     collector_chain ctx @ other_stacks"

definition adapter_predecessors :: "string option \<Rightarrow> path list" where
  "adapter_predecessors ctx =
     map (manifest_of ctx)
       [''PrometheusAdapterAPIService'', ''PrometheusAdapterService'',
        ''PrometheusAdapterDeployment'', ''PrometheusAdapterConfig'',
        ''prometheus-adapter-sa'', ''PrometheusAdapterBinding''] @
     other_stacks"

definition profile_predecessors :: "string option \<Rightarrow> path list" where
  "profile_predecessors ctx =
     map (fargate_profile_of [''EksClusterStack''] (eks (config (compute_mode ctx) None None)))
       (fargate_profiles (compute (eks (config (compute_mode ctx) None None)))) @
     other_stacks"


section \<open>Properties of the configuration resolver\<close>

text \<open>
  C1. For every mode selector string: the selector \<^verbatim>\<open>"fargate"\<close> resolves to the
  Fargate profile, with \<^verbatim>\<open>fargate_profiles\<close> the four listed namespaces and
  \<^verbatim>\<open>auto_mode_enabled\<close> false; every other string, recognised or not, resolves to the
  Auto Mode profile with mode \<^verbatim>\<open>"auto-mode"\<close> and \<^verbatim>\<open>auto_mode_enabled\<close> true. The
  resolver has no error result at all.
\<close>

theorem config_selector_profiles:
  "(selector = ''fargate'' \<longrightarrow>
      config selector acct rgn = fargate_development acct rgn \<and>
      fargate_profiles (compute (eks (config selector acct rgn))) =
        [''default'', ''monitoring'', ''opentelemetry'', ''kube-system''] \<and>
      \<not> auto_mode_enabled (compute (eks (config selector acct rgn)))) \<and>
   (selector \<noteq> ''fargate'' \<longrightarrow>
      config selector acct rgn = development acct rgn \<and>
      mode (compute (eks (config selector acct rgn))) = ''auto-mode'' \<and>
      auto_mode_enabled (compute (eks (config selector acct rgn))))"
  by (simp add: config_def fargate_development_def development_def)

theorem config_selector_profiles_witness:
  "fargate_profiles (compute (eks (config ''fargate'' None None))) =
     [''default'', ''monitoring'', ''opentelemetry'', ''kube-system''] \<and>
   \<not> auto_mode_enabled (compute (eks (config ''fargate'' None None))) \<and>
   mode (compute (eks (config ''Fargate'' None None))) = ''auto-mode'' \<and>
   auto_mode_enabled (compute (eks (config ''Fargate'' None None))) \<and>
   mode (compute (eks (config (compute_mode None) None None))) = ''auto-mode''"
  using config_selector_profiles [of "''fargate''" None None]
        config_selector_profiles [of "''Fargate''" None None]
        config_selector_profiles [of "compute_mode None" None None]
  by (simp add: compute_mode_def config_def)

section \<open>Properties of the compute-enablement callback\<close>

text \<open>
  C2. A \<^verbatim>\<open>Delete\<close> request against a cluster the provider reports as not found (a
  \<^verbatim>\<open>ClientError\<close> with code \<^verbatim>\<open>ResourceNotFoundException\<close>) returns a success
  payload with status \<^verbatim>\<open>NOT_FOUND\<close>. Every other provider error on \<^verbatim>\<open>Delete\<close>,
  and every provider error on \<^verbatim>\<open>Create\<close> or \<^verbatim>\<open>Update\<close>, is raised again
  unchanged. The provider is called with the cluster name and the node role that the
  event carries.
\<close>

theorem on_event_provider_errors:
  "(RequestType ev = Some ''Delete'' \<and> properties_of ev = Some (cluster, node_role_arn) \<and>
      client (disable_request cluster) =
        Inl (ClientError ''ResourceNotFoundException'' msg) \<longrightarrow>
        on_event client ev =
          Inr (Some \<lparr> PhysicalResourceId = cluster @ ''-auto-mode'',
                      Data = \<lparr> UpdateId = None, Status = ''NOT_FOUND'' \<rparr> \<rparr>)) \<and>
   (RequestType ev = Some ''Delete'' \<and> properties_of ev = Some (cluster, node_role_arn) \<and>
      client (disable_request cluster) = Inl e \<and>
      (\<forall>m. e \<noteq> ClientError ''ResourceNotFoundException'' m) \<longrightarrow>
        on_event client ev = Inl e) \<and>
   (RequestType ev \<in> {Some ''Create'', Some ''Update''} \<and>
      properties_of ev = Some (cluster, node_role_arn) \<and>
      client (enable_request cluster node_role_arn) = Inl e \<longrightarrow>
        on_event client ev = Inl e)"
  by (auto simp add: on_event_def on_error_def properties_of_def
           split: exception.splits option.splits)

theorem on_event_provider_errors_witness:
  "on_event (\<lambda>r. Inl (ClientError ''ResourceNotFoundException'' ''No cluster found''))
     \<lparr> RequestType = Some ''Delete'',
       ResourceProperties =
         Some [''ClusterName'' \<mapsto> ''dev-eks-automode'', ''NodeRoleArn'' \<mapsto> ''arn''] \<rparr>
     = Inr (Some \<lparr> PhysicalResourceId = ''dev-eks-automode-auto-mode'',
                   Data = \<lparr> UpdateId = None, Status = ''NOT_FOUND'' \<rparr> \<rparr>) \<and>
   on_event (\<lambda>r. Inl (ClientError ''AccessDeniedException'' ''denied''))
     \<lparr> RequestType = Some ''Delete'',
       ResourceProperties =
         Some [''ClusterName'' \<mapsto> ''dev-eks-automode'', ''NodeRoleArn'' \<mapsto> ''arn''] \<rparr>
     = Inl (ClientError ''AccessDeniedException'' ''denied'') \<and>
   on_event (\<lambda>r. Inl (ClientError ''ResourceNotFoundException'' ''No cluster found''))
     \<lparr> RequestType = Some ''Create'',
       ResourceProperties =
         Some [''ClusterName'' \<mapsto> ''dev-eks-automode'', ''NodeRoleArn'' \<mapsto> ''arn''] \<rparr>
     = Inl (ClientError ''ResourceNotFoundException'' ''No cluster found'')"
proof -
  let ?props = "Some [''ClusterName'' \<mapsto> ''dev-eks-automode'', ''NodeRoleArn'' \<mapsto> ''arn'']"
  let ?del = "\<lparr> RequestType = Some ''Delete'', ResourceProperties = ?props \<rparr>"
  let ?cre = "\<lparr> RequestType = Some ''Create'', ResourceProperties = ?props \<rparr>"
  let ?gone = "\<lambda>r :: update_request.
     (Inl (ClientError ''ResourceNotFoundException'' ''No cluster found'')
        :: exception + update_response)"
  let ?denied = "\<lambda>r :: update_request.
     (Inl (ClientError ''AccessDeniedException'' ''denied'') :: exception + update_response)"
  have pd: "properties_of ?del = Some (''dev-eks-automode'', ''arn'')"
    by (simp add: properties_of_def)
  have pc: "properties_of ?cre = Some (''dev-eks-automode'', ''arn'')"
    by (simp add: properties_of_def)
  from on_event_provider_errors
         [of ?del "''dev-eks-automode''" "''arn''" ?gone "''No cluster found''"
             "OtherException []"] pd
  have a: "on_event ?gone ?del =
     Inr (Some \<lparr> PhysicalResourceId = ''dev-eks-automode-auto-mode'',
                 Data = \<lparr> UpdateId = None, Status = ''NOT_FOUND'' \<rparr> \<rparr>)"
    by simp
  from on_event_provider_errors
         [of ?del "''dev-eks-automode''" "''arn''" ?denied "[]"
             "ClientError ''AccessDeniedException'' ''denied''"] pd
  have b: "on_event ?denied ?del = Inl (ClientError ''AccessDeniedException'' ''denied'')"
    by simp
  from on_event_provider_errors
         [of ?cre "''dev-eks-automode''" "''arn''" ?gone "[]"
             "ClientError ''ResourceNotFoundException'' ''No cluster found''"] pc
  have c: "on_event ?gone ?cre =
     Inl (ClientError ''ResourceNotFoundException'' ''No cluster found'')"
    by simp
  from a b c show ?thesis by simp
qed

text \<open>
  C7. On \<^verbatim>\<open>Create\<close>, \<^verbatim>\<open>Update\<close> and \<^verbatim>\<open>Delete\<close>, every call that returns,
  the delete-not-found case included, returns a payload whose physical identifier is the
  cluster name of the event followed by \<^verbatim>\<open>-auto-mode\<close>: the identifier depends on the
  cluster name alone, not on the request type or on what the provider answered.
\<close>

theorem on_event_physical_id_stable:
  "RequestType ev \<in> {Some ''Create'', Some ''Update'', Some ''Delete''} \<Longrightarrow>
   on_event client ev = Inr r \<Longrightarrow>
   \<exists>p cluster node_role_arn.
       properties_of ev = Some (cluster, node_role_arn) \<and>
       r = Some p \<and> PhysicalResourceId p = cluster @ ''-auto-mode''"
  by (auto simp add: on_event_def on_error_def properties_of_def
           split: sum.splits exception.splits option.splits if_splits)

theorem on_event_physical_id_stable_witness:
  "(\<exists>p. PhysicalResourceId p = ''dev-eks-automode-auto-mode'' \<and>
        on_event (\<lambda>r. Inr \<lparr> update_id = ''u-1'' \<rparr>)
          \<lparr> RequestType = Some ''Update'',
            ResourceProperties =
              Some [''ClusterName'' \<mapsto> ''dev-eks-automode'', ''NodeRoleArn'' \<mapsto> ''arn''] \<rparr>
          = Inr (Some p)) \<and>
   (\<exists>p. PhysicalResourceId p = ''dev-eks-automode-auto-mode'' \<and>
        on_event (\<lambda>r. Inl (ClientError ''ResourceNotFoundException'' ''gone''))
          \<lparr> RequestType = Some ''Delete'',
            ResourceProperties =
              Some [''ClusterName'' \<mapsto> ''dev-eks-automode'', ''NodeRoleArn'' \<mapsto> ''arn''] \<rparr>
          = Inr (Some p))"
proof -
  let ?props = "Some [''ClusterName'' \<mapsto> ''dev-eks-automode'', ''NodeRoleArn'' \<mapsto> ''arn'']"
  let ?ok = "\<lambda>r :: update_request. (Inr \<lparr> update_id = ''u-1'' \<rparr> :: exception + update_response)"
  let ?gone = "\<lambda>r :: update_request.
     (Inl (ClientError ''ResourceNotFoundException'' ''gone'') :: exception + update_response)"
  let ?upd = "\<lparr> RequestType = Some ''Update'', ResourceProperties = ?props \<rparr>"
  let ?del = "\<lparr> RequestType = Some ''Delete'', ResourceProperties = ?props \<rparr>"
  have u: "RequestType ?upd \<in> {Some ''Create'', Some ''Update'', Some ''Delete''}" by simp
  have d: "RequestType ?del \<in> {Some ''Create'', Some ''Update'', Some ''Delete''}" by simp
  have pu: "properties_of ?upd = Some (''dev-eks-automode'', ''arn'')"
    by (simp add: properties_of_def)
  have pd: "properties_of ?del = Some (''dev-eks-automode'', ''arn'')"
    by (simp add: properties_of_def)
  obtain ru where ru: "on_event ?ok ?upd = Inr ru"
    by (simp add: on_event_def)
  obtain rd where rd: "on_event ?gone ?del = Inr rd"
    by (simp add: on_event_def on_error_def)
  from on_event_physical_id_stable [OF u ru] pu ru
  have a: "\<exists>p. PhysicalResourceId p = ''dev-eks-automode-auto-mode'' \<and>
               on_event ?ok ?upd = Inr (Some p)"
    by auto
  from on_event_physical_id_stable [OF d rd] pd rd
  have b: "\<exists>p. PhysicalResourceId p = ''dev-eks-automode-auto-mode'' \<and>
               on_event ?gone ?del = Inr (Some p)"
    by auto
  from a b show ?thesis by blast
qed

text \<open>
  C10, as the claim states it, fails: an event whose request type is none of the three
  and that carries no \<^verbatim>\<open>ResourceProperties\<close> does not return \<^verbatim>\<open>None\<close>. The
  subscript at line 13 raises \<^verbatim>\<open>KeyError\<close> before the request type is looked at.
\<close>

theorem on_event_unknown_request_type_counterexample:
  "on_event (\<lambda>r. Inr \<lparr> update_id = ''u-1'' \<rparr>)
     \<lparr> RequestType = Some ''Foo'', ResourceProperties = None \<rparr>
   = Inl (KeyError ''ResourceProperties'') \<and>
   on_event (\<lambda>r. Inr \<lparr> update_id = ''u-1'' \<rparr>)
     \<lparr> RequestType = Some ''Foo'', ResourceProperties = None \<rparr>
   \<noteq> Inr None"
  by (simp add: on_event_def)

text \<open>
  C10, amended. For every event that carries the properties \<^verbatim>\<open>ClusterName\<close> and
  \<^verbatim>\<open>NodeRoleArn\<close> and whose request type is none of \<^verbatim>\<open>Create\<close>, \<^verbatim>\<open>Update\<close>
  and \<^verbatim>\<open>Delete\<close>, the callback returns \<^verbatim>\<open>None\<close>: it neither builds a payload
  with a physical identifier nor raises, and it never calls the provider.
\<close>

theorem on_event_unknown_request_type:
  "RequestType ev = Some request_type \<Longrightarrow>
   request_type \<notin> {''Create'', ''Update'', ''Delete''} \<Longrightarrow>
   properties_of ev = Some (cluster, node_role_arn) \<Longrightarrow>
   on_event client ev = Inr None"
  by (auto simp add: on_event_def properties_of_def split: option.splits)

theorem on_event_unknown_request_type_witness:
  "on_event (\<lambda>r. Inl (OtherException ''unreachable''))
     \<lparr> RequestType = Some ''delete'',
       ResourceProperties =
         Some [''ClusterName'' \<mapsto> ''dev-eks-automode'', ''NodeRoleArn'' \<mapsto> ''arn''] \<rparr>
   = Inr None"
proof -
  let ?ev = "\<lparr> RequestType = Some ''delete'',
       ResourceProperties =
         Some [''ClusterName'' \<mapsto> ''dev-eks-automode'', ''NodeRoleArn'' \<mapsto> ''arn''] \<rparr>"
  have t: "RequestType ?ev = Some ''delete''" by simp
  have n: "''delete'' \<notin> {''Create'', ''Update'', ''Delete''}" by simp
  have p: "properties_of ?ev = Some (''dev-eks-automode'', ''arn'')"
    by (simp add: properties_of_def)
  from on_event_unknown_request_type [OF t n p] show ?thesis .
qed

section \<open>Properties of compute-mode branching\<close>

lemma rule_documents_differ: "get_auto_mode_config \<noteq> get_fargate_config"
  by (simp add: get_auto_mode_config_def get_fargate_config_def)

lemma split_lines_newline: "split_lines (CHR 0x0A # cs) = [] # split_lines cs"
  by simp

lemma split_lines_char:
  "c \<noteq> CHR 0x0A \<Longrightarrow> split_lines (c # cs) = add_char c (split_lines cs)"
  by simp

lemma is_comment_hash: "is_comment (CHR ''#'' # cs)"
  by (simp add: is_comment_def)

lemma is_comment_empty: "\<not> is_comment []"
  by (simp add: is_comment_def)

lemma is_comment_space: "is_comment (CHR '' '' # cs) = is_comment cs"
  by (simp add: is_comment_def)

lemma is_comment_other: "c \<noteq> CHR '' '' \<Longrightarrow> c \<noteq> CHR ''#'' \<Longrightarrow> \<not> is_comment (c # cs)"
  by (simp add: is_comment_def)

lemmas line_rules =
  split_lines.simps(1) split_lines_newline split_lines_char add_char.simps
  append.simps char.inject simp_thms filter.simps if_True if_False
  is_comment_hash is_comment_empty is_comment_space is_comment_other

text \<open>
  The two rule documents hold the same rules: the lines in which they differ are the
  four comment lines that head the four rules.
\<close>

lemma rule_documents_same_rules:
  "rule_lines get_auto_mode_config = rule_lines get_fargate_config"
  by (simp only: rule_lines_def get_auto_mode_config_def get_fargate_config_def line_rules
        cong: if_weak_cong)

lemma rule_lines_auto_mode:
  "length (rule_lines get_auto_mode_config) = 37 \<and>
   length (split_lines get_auto_mode_config) = 41"
  by (simp only: rule_lines_def get_auto_mode_config_def line_rules list.size
        cong: if_weak_cong) simp

text \<open>
  C8, as the claim states it, fails in two parts. In Auto Mode the pod of the Prometheus
  adapter does receive a placement hint, the toleration that the \<^verbatim>\<open>else\<close> branch of
  \<^verbatim>\<open>_get_tolerations\<close> builds. And the two modes do not differ in the rule set of the
  adapter: the document selected for Auto Mode and the one selected for Fargate hold the
  same rule lines.
\<close>

theorem auto_mode_adapter_counterexample:
  "tolerations
     (prometheus_adapter_pod_spec
        (mode (compute (eks (config (compute_mode None) None None))))) =
     Some [\<lparr> tol_key = ''eks.amazonaws.com/compute-type'', tol_operator = ''Equal'',
              tol_value = ''prometheus-adapter'', tol_effect = ''NoSchedule'' \<rparr>] \<and>
   rule_lines (get_adapter_config ''auto-mode'') = rule_lines (get_adapter_config ''fargate'')"
proof -
  have "tolerations
     (prometheus_adapter_pod_spec
        (mode (compute (eks (config (compute_mode None) None None))))) =
     Some [\<lparr> tol_key = ''eks.amazonaws.com/compute-type'', tol_operator = ''Equal'',
              tol_value = ''prometheus-adapter'', tol_effect = ''NoSchedule'' \<rparr>]"
    by (simp add: prometheus_adapter_pod_spec_def get_tolerations_def config_def
          compute_mode_def development_def)
  moreover have
    "rule_lines (get_adapter_config ''auto-mode'') = rule_lines (get_adapter_config ''fargate'')"
    using rule_documents_same_rules by (simp add: get_adapter_config_def)
  ultimately show ?thesis by (rule conjI)
qed

text \<open>
  C8, amended. The overlays are functions of the mode string alone: two compute
  configurations with the same mode get the same pod spec overlay. Auto Mode and Fargate
  differ in the placement hints. In the adapter-rule-set dimension they do not differ:
  the rule documents of the two modes are different strings that hold the same rule
  lines, so they differ in comment lines only. The pods built from \<^verbatim>\<open>_get_pod_spec\<close>
  (the four sample workloads and the Prometheus server) receive neither
  \<^verbatim>\<open>nodeSelector\<close> nor \<^verbatim>\<open>tolerations\<close> in Auto Mode and both in Fargate mode. The
  adapter pod receives one toleration in either mode, with value \<^verbatim>\<open>fargate\<close> in
  Fargate mode and \<^verbatim>\<open>prometheus-adapter\<close> otherwise, and no \<^verbatim>\<open>nodeSelector\<close>.
\<close>

theorem compute_mode_branching:
  "(mode c1 = mode c2 \<longrightarrow> get_pod_spec (Some c1) = get_pod_spec (Some c2)) \<and>
   (mode c1 = ''auto-mode'' \<and> mode c2 = ''fargate'' \<longrightarrow>
      get_pod_spec (Some c1) \<noteq> get_pod_spec (Some c2)) \<and>
   (mode c1 = ''auto-mode'' \<longrightarrow>
      nodeSelector (get_pod_spec (Some c1)) = None \<and>
      tolerations (get_pod_spec (Some c1)) = None) \<and>
   (mode c2 = ''fargate'' \<longrightarrow>
      nodeSelector (get_pod_spec (Some c2)) =
        Some [(''eks.amazonaws.com/compute-type'', ''fargate'')] \<and>
      tolerations (get_pod_spec (Some c2)) =
        Some [\<lparr> tol_key = ''eks.amazonaws.com/compute-type'', tol_operator = ''Equal'',
                 tol_value = ''fargate'', tol_effect = ''NoSchedule'' \<rparr>]) \<and>
   get_adapter_config ''auto-mode'' \<noteq> get_adapter_config ''fargate'' \<and>
   (m \<noteq> ''fargate'' \<longrightarrow>
      rule_lines (get_adapter_config m) = rule_lines (get_adapter_config ''fargate'')) \<and>
   get_tolerations ''auto-mode'' \<noteq> get_tolerations ''fargate'' \<and>
   get_tolerations ''fargate'' =
     [\<lparr> tol_key = ''eks.amazonaws.com/compute-type'', tol_operator = ''Equal'',
        tol_value = ''fargate'', tol_effect = ''NoSchedule'' \<rparr>] \<and>
   (m \<noteq> ''fargate'' \<longrightarrow>
      get_tolerations m =
        [\<lparr> tol_key = ''eks.amazonaws.com/compute-type'', tol_operator = ''Equal'',
           tol_value = ''prometheus-adapter'', tol_effect = ''NoSchedule'' \<rparr>]) \<and>
   nodeSelector (prometheus_adapter_pod_spec m) = None \<and>
   tolerations (prometheus_adapter_pod_spec m) = Some (get_tolerations m)"
proof -
  have adapter: "nodeSelector (prometheus_adapter_pod_spec m) = None \<and>
    tolerations (prometheus_adapter_pod_spec m) = Some (get_tolerations m)"
    by (simp add: prometheus_adapter_pod_spec_def)
  have docs: "get_adapter_config ''auto-mode'' \<noteq> get_adapter_config ''fargate''"
    using rule_documents_differ by (simp add: get_adapter_config_def)
  have rules: "m \<noteq> ''fargate'' \<longrightarrow>
      rule_lines (get_adapter_config m) = rule_lines (get_adapter_config ''fargate'')"
    using rule_documents_same_rules by (simp add: get_adapter_config_def)
  have pods: "(mode c1 = mode c2 \<longrightarrow> get_pod_spec (Some c1) = get_pod_spec (Some c2)) \<and>
    (mode c1 = ''auto-mode'' \<and> mode c2 = ''fargate'' \<longrightarrow>
      get_pod_spec (Some c1) \<noteq> get_pod_spec (Some c2)) \<and>
    (mode c1 = ''auto-mode'' \<longrightarrow>
      nodeSelector (get_pod_spec (Some c1)) = None \<and>
      tolerations (get_pod_spec (Some c1)) = None) \<and>
    (mode c2 = ''fargate'' \<longrightarrow>
      nodeSelector (get_pod_spec (Some c2)) =
        Some [(''eks.amazonaws.com/compute-type'', ''fargate'')] \<and>
      tolerations (get_pod_spec (Some c2)) =
        Some [\<lparr> tol_key = ''eks.amazonaws.com/compute-type'', tol_operator = ''Equal'',
                 tol_value = ''fargate'', tol_effect = ''NoSchedule'' \<rparr>])"
    by (simp add: get_pod_spec_def)
  have tols: "get_tolerations ''auto-mode'' \<noteq> get_tolerations ''fargate'' \<and>
    get_tolerations ''fargate'' =
     [\<lparr> tol_key = ''eks.amazonaws.com/compute-type'', tol_operator = ''Equal'',
        tol_value = ''fargate'', tol_effect = ''NoSchedule'' \<rparr>] \<and>
    (m \<noteq> ''fargate'' \<longrightarrow>
      get_tolerations m =
        [\<lparr> tol_key = ''eks.amazonaws.com/compute-type'', tol_operator = ''Equal'',
           tol_value = ''prometheus-adapter'', tol_effect = ''NoSchedule'' \<rparr>])"
    by (simp add: get_tolerations_def)
  from docs rules pods tols adapter show ?thesis by blast
qed

theorem compute_mode_branching_witness:
  "nodeSelector (get_pod_spec (Some (compute (eks (development None None))))) = None \<and>
   tolerations (get_pod_spec (Some (compute (eks (development None None))))) = None \<and>
   get_pod_spec (Some (compute (eks (development None None)))) \<noteq>
     get_pod_spec (Some (compute (eks (fargate_development None None)))) \<and>
   nodeSelector (get_pod_spec (Some (compute (eks (fargate_development None None))))) \<noteq> None \<and>
   tolerations (get_pod_spec (Some (compute (eks (fargate_development None None))))) \<noteq> None \<and>
   get_tolerations ''auto-mode'' \<noteq> [] \<and>
   rule_lines (get_adapter_config ''auto-mode'') = rule_lines (get_adapter_config ''fargate'')"
proof -
  let ?a = "compute (eks (development None None))"
  let ?f = "compute (eks (fargate_development None None))"
  have a: "mode ?a = ''auto-mode''" by (simp add: development_def)
  have f: "mode ?f = ''fargate''" by (simp add: fargate_development_def)
  have n: "''auto-mode'' \<noteq> ''fargate''" by simp
  from compute_mode_branching [of ?a ?f "''auto-mode''"] a f n
  show ?thesis by auto
qed

section \<open>The two graphs that the build script can produce\<close>

lemma eks_development:
  "mode (compute (eks (development acct rgn))) = ''auto-mode''"
  "admin_user_arn (eks (development acct rgn)) = Some ''arn:aws:iam::123456789:user/user-cli''"
  "admin_role_arn (eks (development acct rgn)) = None"
  "mode_prefix (eks (development acct rgn)) = ''Automode''"
  "cluster_id (eks (development acct rgn)) = ''AutoModeClusterAutomode''"
  by (simp_all add: development_def cluster_id_def mode_prefix_def title_def remove_dashes_def
        to_upper_def to_lower_def is_cased_def)

lemma eks_fargate_development:
  "mode (compute (eks (fargate_development acct rgn))) = ''fargate''"
  "fargate_profiles (compute (eks (fargate_development acct rgn))) =
     [''default'', ''monitoring'', ''opentelemetry'', ''kube-system'']"
  "admin_user_arn (eks (fargate_development acct rgn)) =
     Some ''arn:aws:iam::123456789:user/user-cli''"
  "admin_role_arn (eks (fargate_development acct rgn)) = None"
  "mode_prefix (eks (fargate_development acct rgn)) = ''Fargate''"
  "cluster_id (eks (fargate_development acct rgn)) = ''FargateClusterFargate''"
  by (simp_all add: fargate_development_def cluster_id_def mode_prefix_def title_def
        remove_dashes_def to_upper_def to_lower_def is_cased_def)

lemmas construct_defs =
  EksClusterStack_def create_namespaces_def ensure_fargate_namespaces_ready_def
  enable_auto_mode_def configure_admin_access_def add_cluster_addons_def
  cluster_of_def monitoring_namespace_of_def opentelemetry_namespace_of_def
  fargate_profile_of_def PrometheusConstruct_def PrometheusAdapterConstruct_def
  SampleAppConstruct_def OtelAppConstruct_def GoOtelAppConstruct_def JavaOtelAppConstruct_def

text \<open>
  Every context value other than \<^verbatim>\<open>"fargate"\<close> builds the same Auto Mode graph, and
  \<^verbatim>\<open>"fargate"\<close> builds the Fargate graph: the declared constructs and the declared
  edges, in source order.
\<close>

lemma app_auto_mode:
  "compute_mode ctx \<noteq> ''fargate'' \<Longrightarrow>
   nodes_of (app ctx acct rgn) =
     [[''NetworkStack''],
      [''KubectlLayerStack''],
      [''ObservabilityStack''],
      [''EcrStack''],
      [''EksClusterStack''],
      [''EksClusterStack'', ''EksClusterServiceRole''],
      [''EksClusterStack'', ''EksNodeGroupServiceRole''],
      [''EksClusterStack'', ''ComputeModeChanged''],
      [''EksClusterStack'', ''AutoModeClusterAutomode''],
      [''EksClusterStack'', ''AutoModeClusterAutomode'', ''AutomodeMonitoringNamespace''],
      [''EksClusterStack'', ''AutoModeClusterAutomode'', ''AutomodeOpenTelemetryNamespace''],
      [''EksClusterStack'', ''AutoModeLambdaRole''],
      [''EksClusterStack'', ''AutoModeLambda''],
      [''EksClusterStack'', ''AutoModeProvider''],
      [''EksClusterStack'', ''EnableAutoMode''],
      [''EksClusterStack'', ''AdminUser''],
      [''EksClusterStack'', ''ClusterCreatorAccessEntry''],
      [''EksClusterStack'', ''AutoModeCoreDnsAddon''],
      [''EksClusterStack'', ''AutoModePodIdentityAgentAddon''],
      [''EksClusterStack'', ''AutoModeVpcCniAddon''],
      [''EksClusterStack'', ''AutoModeKubeProxyAddon''],
      [''EksClusterStack'', ''AdotConditionsJson''],
      [''EksClusterStack'', ''AdotCollectorRole''],
      [''EksClusterStack'', ''AutoModeClusterAutomode'', ''ClusterLogging''],
      [''EksClusterStack'', ''ClusterName''],
      [''EksClusterStack'', ''ClusterEndpoint''],
      [''EksClusterStack'', ''ClusterArn''],
      [''EksClusterStack'', ''KubectlConfigCommand''],
      [''EksClusterStack'', ''AutoModeStatus''],
      [''EksClusterStack'', ''AdotRoleArn''],
      [''EksClusterStack'', ''ClusterServiceRoleArn''],
      [''EksClusterStack'', ''Prometheus''],
      [''EksClusterStack'', ''AutoModeClusterAutomode'', ''prometheus-sa''],
      [''EksClusterStack'', ''AutoModeClusterAutomode'', ''PrometheusClusterRole''],
      [''EksClusterStack'', ''AutoModeClusterAutomode'', ''PrometheusClusterRoleBinding''],
      [''EksClusterStack'', ''AutoModeClusterAutomode'', ''PrometheusConfigMap''],
      [''EksClusterStack'', ''AutoModeClusterAutomode'', ''PrometheusDeployment''],
      [''EksClusterStack'', ''AutoModeClusterAutomode'', ''PrometheusService''],
      [''EksClusterStack'', ''Prometheus'', ''PrometheusServiceName''],
      [''EksClusterStack'', ''PrometheusAdapter''],
      [''EksClusterStack'', ''AutoModeClusterAutomode'', ''MonitoringNamespacePrometheus''],
      [''EksClusterStack'', ''AutoModeClusterAutomode'', ''prometheus-adapter-sa''],
      [''EksClusterStack'', ''AutoModeClusterAutomode'', ''PrometheusAdapterRole''],
      [''EksClusterStack'', ''AutoModeClusterAutomode'', ''PrometheusAdapterBinding''],
      [''EksClusterStack'', ''AutoModeClusterAutomode'', ''PrometheusAdapterConfig''],
      [''EksClusterStack'', ''AutoModeClusterAutomode'', ''PrometheusAdapterDeployment''],
      [''EksClusterStack'', ''AutoModeClusterAutomode'', ''PrometheusAdapterService''],
      [''EksClusterStack'', ''AutoModeClusterAutomode'', ''PrometheusAdapterAPIService''],
      [''EksClusterStack'', ''SampleMetricsApp''],
      [''EksClusterStack'', ''AutoModeClusterAutomode'', ''SampleMetricsAppDeployment''],
      [''EksClusterStack'', ''AutoModeClusterAutomode'', ''SampleMetricsAppService''],
      [''EksClusterStack'', ''AutoModeClusterAutomode'', ''SampleMetricsAppHPA''],
      [''EksClusterStack'', ''OtelSampleApp''],
      [''EksClusterStack'', ''AutoModeClusterAutomode'', ''OtelCollectorSA''],
      [''EksClusterStack'', ''AutoModeClusterAutomode'', ''OtelCollectorRole''],
      [''EksClusterStack'', ''AutoModeClusterAutomode'', ''OtelCollectorRoleBinding''],
      [''EksClusterStack'', ''AutoModeClusterAutomode'', ''OtelCollectorConfig''],
      [''EksClusterStack'', ''AutoModeClusterAutomode'', ''OtelCollectorDeployment''],
      [''EksClusterStack'', ''AutoModeClusterAutomode'', ''OtelCollectorService''],
      [''EksClusterStack'', ''AutoModeClusterAutomode'', ''OtelSampleAppDeployment''],
      [''EksClusterStack'', ''AutoModeClusterAutomode'', ''OtelSampleAppService''],
      [''EksClusterStack'', ''AutoModeClusterAutomode'', ''OtelSampleAppHPA''],
      [''EksClusterStack'', ''GoOtelSampleApp''],
      [''EksClusterStack'', ''AutoModeClusterAutomode'', ''GoOtelAppDeployment''],
      [''EksClusterStack'', ''AutoModeClusterAutomode'', ''GoOtelAppService''],
      [''EksClusterStack'', ''AutoModeClusterAutomode'', ''GoOtelAppHPA''],
      [''EksClusterStack'', ''JavaOtelSampleApp''],
      [''EksClusterStack'', ''AutoModeClusterAutomode'', ''JavaOtelSampleAppDeployment''],
      [''EksClusterStack'', ''AutoModeClusterAutomode'', ''JavaOtelSampleAppService''],
      [''EksClusterStack'', ''AutoModeClusterAutomode'', ''JavaOtelSampleAppHPA'']] \<and>
   edges_of (app ctx acct rgn) =
     [([''EksClusterStack'', ''EnableAutoMode''],
        [''EksClusterStack'', ''AutoModeClusterAutomode'']),
      ([''EksClusterStack'', ''AutoModeCoreDnsAddon''],
        [''EksClusterStack'', ''EnableAutoMode'']),
      ([''EksClusterStack'', ''AutoModePodIdentityAgentAddon''],
        [''EksClusterStack'', ''EnableAutoMode'']),
      ([''EksClusterStack'', ''AutoModeVpcCniAddon''],
        [''EksClusterStack'', ''EnableAutoMode'']),
      ([''EksClusterStack'', ''AutoModeKubeProxyAddon''],
        [''EksClusterStack'', ''EnableAutoMode'']),
      ([''EksClusterStack'', ''AutoModeClusterAutomode'', ''prometheus-sa''],
        [''EksClusterStack'', ''AutoModeClusterAutomode'', ''AutomodeMonitoringNamespace'']),
      ([''EksClusterStack'', ''AutoModeClusterAutomode'', ''PrometheusClusterRoleBinding''],
        [''EksClusterStack'', ''AutoModeClusterAutomode'', ''PrometheusClusterRole'']),
      ([''EksClusterStack'', ''AutoModeClusterAutomode'', ''PrometheusClusterRoleBinding''],
        [''EksClusterStack'', ''AutoModeClusterAutomode'', ''AutomodeMonitoringNamespace'']),
      ([''EksClusterStack'', ''AutoModeClusterAutomode'', ''PrometheusConfigMap''],
        [''EksClusterStack'', ''AutoModeClusterAutomode'', ''AutomodeMonitoringNamespace'']),
      ([''EksClusterStack'', ''AutoModeClusterAutomode'', ''PrometheusDeployment''],
        [''EksClusterStack'', ''AutoModeClusterAutomode'', ''PrometheusConfigMap'']),
      ([''EksClusterStack'', ''AutoModeClusterAutomode'', ''PrometheusDeployment''],
        [''EksClusterStack'', ''AutoModeClusterAutomode'', ''prometheus-sa'']),
      ([''EksClusterStack'', ''AutoModeClusterAutomode'', ''PrometheusDeployment''],
        [''EksClusterStack'', ''AutoModeClusterAutomode'', ''PrometheusClusterRoleBinding'']),
      ([''EksClusterStack'', ''AutoModeClusterAutomode'', ''PrometheusService''],
        [''EksClusterStack'', ''AutoModeClusterAutomode'', ''PrometheusDeployment'']),
      ([''EksClusterStack'', ''Prometheus''],
        [''EksClusterStack'']),
      ([''EksClusterStack'', ''Prometheus''],
        [''EksClusterStack'', ''AutoModeClusterAutomode'', ''AutomodeMonitoringNamespace'']),
      ([''EksClusterStack'', ''AutoModeClusterAutomode'', ''PrometheusAdapterDeployment''],
        [''EksClusterStack'', ''AutoModeClusterAutomode'', ''PrometheusAdapterConfig'']),
      ([''EksClusterStack'', ''AutoModeClusterAutomode'', ''PrometheusAdapterDeployment''],
        [''EksClusterStack'', ''AutoModeClusterAutomode'', ''prometheus-adapter-sa'']),
      ([''EksClusterStack'', ''AutoModeClusterAutomode'', ''PrometheusAdapterService''],
        [''EksClusterStack'', ''AutoModeClusterAutomode'', ''PrometheusAdapterDeployment'']),
      ([''EksClusterStack'', ''AutoModeClusterAutomode'', ''PrometheusAdapterAPIService''],
        [''EksClusterStack'', ''AutoModeClusterAutomode'', ''PrometheusAdapterService'']),
      ([''EksClusterStack'', ''PrometheusAdapter''],
        [''EksClusterStack'']),
      ([''EksClusterStack'', ''PrometheusAdapter''],
        [''EksClusterStack'', ''Prometheus'']),
      ([''EksClusterStack'', ''PrometheusAdapter''],
        [''EksClusterStack'', ''AutoModeClusterAutomode'', ''AutomodeMonitoringNamespace'']),
      ([''EksClusterStack'', ''AutoModeClusterAutomode'', ''SampleMetricsAppService''],
        [''EksClusterStack'', ''AutoModeClusterAutomode'', ''SampleMetricsAppDeployment'']),
      ([''EksClusterStack'', ''AutoModeClusterAutomode'', ''SampleMetricsAppHPA''],
        [''EksClusterStack'', ''AutoModeClusterAutomode'', ''SampleMetricsAppDeployment'']),
      ([''EksClusterStack'', ''SampleMetricsApp''],
        [''EksClusterStack'', ''PrometheusAdapter'']),
      ([''EksClusterStack'', ''AutoModeClusterAutomode'', ''OtelCollectorSA''],
        [''EksClusterStack'', ''AutoModeClusterAutomode'', ''AutomodeOpenTelemetryNamespace'']),
      ([''EksClusterStack'', ''AutoModeClusterAutomode'', ''OtelCollectorRoleBinding''],
        [''EksClusterStack'', ''AutoModeClusterAutomode'', ''OtelCollectorRole'']),
      ([''EksClusterStack'', ''AutoModeClusterAutomode'', ''OtelCollectorRoleBinding''],
        [''EksClusterStack'', ''AutoModeClusterAutomode'', ''OtelCollectorSA'']),
      ([''EksClusterStack'', ''AutoModeClusterAutomode'', ''OtelCollectorConfig''],
        [''EksClusterStack'', ''AutoModeClusterAutomode'', ''AutomodeOpenTelemetryNamespace'']),
      ([''EksClusterStack'', ''AutoModeClusterAutomode'', ''OtelCollectorDeployment''],
        [''EksClusterStack'', ''AutoModeClusterAutomode'', ''OtelCollectorConfig'']),
      ([''EksClusterStack'', ''AutoModeClusterAutomode'', ''OtelCollectorDeployment''],
        [''EksClusterStack'', ''AutoModeClusterAutomode'', ''OtelCollectorRoleBinding'']),
      ([''EksClusterStack'', ''AutoModeClusterAutomode'', ''OtelCollectorService''],
        [''EksClusterStack'', ''AutoModeClusterAutomode'', ''OtelCollectorDeployment'']),
      ([''EksClusterStack'', ''AutoModeClusterAutomode'', ''OtelSampleAppDeployment''],
        [''EksClusterStack'', ''AutoModeClusterAutomode'', ''OtelCollectorService'']),
      ([''EksClusterStack'', ''AutoModeClusterAutomode'', ''OtelSampleAppService''],
        [''EksClusterStack'', ''AutoModeClusterAutomode'', ''OtelSampleAppDeployment'']),
      ([''EksClusterStack'', ''AutoModeClusterAutomode'', ''OtelSampleAppHPA''],
        [''EksClusterStack'', ''AutoModeClusterAutomode'', ''OtelSampleAppDeployment'']),
      ([''EksClusterStack'', ''OtelSampleApp''],
        [''EksClusterStack'', ''AutoModeClusterAutomode'', ''AutomodeOpenTelemetryNamespace'']),
      ([''EksClusterStack'', ''OtelSampleApp''],
        [''EksClusterStack'', ''PrometheusAdapter'']),
      ([''EksClusterStack'', ''AutoModeClusterAutomode'', ''GoOtelAppService''],
        [''EksClusterStack'', ''AutoModeClusterAutomode'', ''GoOtelAppDeployment'']),
      ([''EksClusterStack'', ''AutoModeClusterAutomode'', ''GoOtelAppHPA''],
        [''EksClusterStack'', ''AutoModeClusterAutomode'', ''GoOtelAppDeployment'']),
      ([''EksClusterStack'', ''GoOtelSampleApp''],
        [''EksClusterStack'', ''PrometheusAdapter'']),
      ([''EksClusterStack'', ''AutoModeClusterAutomode'', ''JavaOtelSampleAppService''],
        [''EksClusterStack'', ''AutoModeClusterAutomode'', ''JavaOtelSampleAppDeployment'']),
      ([''EksClusterStack'', ''AutoModeClusterAutomode'', ''JavaOtelSampleAppHPA''],
        [''EksClusterStack'', ''AutoModeClusterAutomode'', ''JavaOtelSampleAppDeployment'']),
      ([''EksClusterStack'', ''JavaOtelSampleApp''],
        [''EksClusterStack'', ''PrometheusAdapter'']),
      ([''EksClusterStack''],
        [''NetworkStack'']),
      ([''EksClusterStack''],
        [''KubectlLayerStack'']),
      ([''EksClusterStack''],
        [''ObservabilityStack''])]"
  by (simp add: app_def config_def eks_development construct_defs Let_def)

lemma app_fargate:
  "compute_mode ctx = ''fargate'' \<Longrightarrow>
   nodes_of (app ctx acct rgn) =
     [[''NetworkStack''],
      [''KubectlLayerStack''],
      [''ObservabilityStack''],
      [''EcrStack''],
      [''EksClusterStack''],
      [''EksClusterStack'', ''EksClusterServiceRole''],
      [''EksClusterStack'', ''EksNodeGroupServiceRole''],
      [''EksClusterStack'', ''ComputeModeChanged''],
      [''EksClusterStack'', ''FargateClusterFargate''],
      [''EksClusterStack'', ''FargateClusterFargate'', ''FargateMonitoringNamespace''],
      [''EksClusterStack'', ''FargateClusterFargate'', ''FargateOpenTelemetryNamespace''],
      [''EksClusterStack'', ''FargateClusterFargate'', ''default-fargate-profile''],
      [''EksClusterStack'', ''FargateClusterFargate'', ''monitoring-fargate-profile''],
      [''EksClusterStack'', ''FargateClusterFargate'', ''opentelemetry-fargate-profile''],
      [''EksClusterStack'', ''FargateClusterFargate'', ''kube-system-fargate-profile''],
      [''EksClusterStack'', ''AdminUser''],
      [''EksClusterStack'', ''ClusterCreatorAccessEntry''],
      [''EksClusterStack'', ''FargateCoreDnsAddon''],
      [''EksClusterStack'', ''FargatePodIdentityAgentAddon''],
      [''EksClusterStack'', ''FargateVpcCniAddon''],
      [''EksClusterStack'', ''FargateKubeProxyAddon''],
      [''EksClusterStack'', ''AdotConditionsJson''],
      [''EksClusterStack'', ''AdotCollectorRole''],
      [''EksClusterStack'', ''FargateClusterFargate'', ''ClusterLogging''],
      [''EksClusterStack'', ''ClusterName''],
      [''EksClusterStack'', ''ClusterEndpoint''],
      [''EksClusterStack'', ''ClusterArn''],
      [''EksClusterStack'', ''KubectlConfigCommand''],
      [''EksClusterStack'', ''AutoModeStatus''],
      [''EksClusterStack'', ''AdotRoleArn''],
      [''EksClusterStack'', ''ClusterServiceRoleArn''],
      [''EksClusterStack'', ''Prometheus''],
      [''EksClusterStack'', ''FargateClusterFargate'', ''prometheus-sa''],
      [''EksClusterStack'', ''FargateClusterFargate'', ''PrometheusClusterRole''],
      [''EksClusterStack'', ''FargateClusterFargate'', ''PrometheusClusterRoleBinding''],
      [''EksClusterStack'', ''FargateClusterFargate'', ''PrometheusConfigMap''],
      [''EksClusterStack'', ''FargateClusterFargate'', ''PrometheusDeployment''],
      [''EksClusterStack'', ''FargateClusterFargate'', ''PrometheusService''],
      [''EksClusterStack'', ''Prometheus'', ''PrometheusServiceName''],
      [''EksClusterStack'', ''PrometheusAdapter''],
      [''EksClusterStack'', ''FargateClusterFargate'', ''MonitoringNamespacePrometheus''],
      [''EksClusterStack'', ''FargateClusterFargate'', ''prometheus-adapter-sa''],
      [''EksClusterStack'', ''FargateClusterFargate'', ''PrometheusAdapterRole''],
      [''EksClusterStack'', ''FargateClusterFargate'', ''PrometheusAdapterBinding''],
      [''EksClusterStack'', ''FargateClusterFargate'', ''PrometheusAdapterConfig''],
      [''EksClusterStack'', ''FargateClusterFargate'', ''PrometheusAdapterDeployment''],
      [''EksClusterStack'', ''FargateClusterFargate'', ''PrometheusAdapterService''],
      [''EksClusterStack'', ''FargateClusterFargate'', ''PrometheusAdapterAPIService''],
      [''EksClusterStack'', ''SampleMetricsApp''],
      [''EksClusterStack'', ''FargateClusterFargate'', ''SampleMetricsAppDeployment''],
      [''EksClusterStack'', ''FargateClusterFargate'', ''SampleMetricsAppService''],
      [''EksClusterStack'', ''FargateClusterFargate'', ''SampleMetricsAppHPA''],
      [''EksClusterStack'', ''OtelSampleApp''],
      [''EksClusterStack'', ''FargateClusterFargate'', ''OtelCollectorSA''],
      [''EksClusterStack'', ''FargateClusterFargate'', ''OtelCollectorRole''],
      [''EksClusterStack'', ''FargateClusterFargate'', ''OtelCollectorRoleBinding''],
      [''EksClusterStack'', ''FargateClusterFargate'', ''OtelCollectorConfig''],
      [''EksClusterStack'', ''FargateClusterFargate'', ''OtelCollectorDeployment''],
      [''EksClusterStack'', ''FargateClusterFargate'', ''OtelCollectorService''],
      [''EksClusterStack'', ''FargateClusterFargate'', ''OtelSampleAppDeployment''],
      [''EksClusterStack'', ''FargateClusterFargate'', ''OtelSampleAppService''],
      [''EksClusterStack'', ''FargateClusterFargate'', ''OtelSampleAppHPA''],
      [''EksClusterStack'', ''GoOtelSampleApp''],
      [''EksClusterStack'', ''FargateClusterFargate'', ''GoOtelAppDeployment''],
      [''EksClusterStack'', ''FargateClusterFargate'', ''GoOtelAppService''],
      [''EksClusterStack'', ''FargateClusterFargate'', ''GoOtelAppHPA''],
      [''EksClusterStack'', ''JavaOtelSampleApp''],
      [''EksClusterStack'', ''FargateClusterFargate'', ''JavaOtelSampleAppDeployment''],
      [''EksClusterStack'', ''FargateClusterFargate'', ''JavaOtelSampleAppService''],
      [''EksClusterStack'', ''FargateClusterFargate'', ''JavaOtelSampleAppHPA'']] \<and>
   edges_of (app ctx acct rgn) =
     [([''EksClusterStack'', ''FargateClusterFargate'', ''prometheus-sa''],
        [''EksClusterStack'', ''FargateClusterFargate'', ''FargateMonitoringNamespace'']),
      ([''EksClusterStack'', ''FargateClusterFargate'', ''PrometheusClusterRoleBinding''],
        [''EksClusterStack'', ''FargateClusterFargate'', ''PrometheusClusterRole'']),
      ([''EksClusterStack'', ''FargateClusterFargate'', ''PrometheusClusterRoleBinding''],
        [''EksClusterStack'', ''FargateClusterFargate'', ''FargateMonitoringNamespace'']),
      ([''EksClusterStack'', ''FargateClusterFargate'', ''PrometheusConfigMap''],
        [''EksClusterStack'', ''FargateClusterFargate'', ''FargateMonitoringNamespace'']),
      ([''EksClusterStack'', ''FargateClusterFargate'', ''PrometheusDeployment''],
        [''EksClusterStack'', ''FargateClusterFargate'', ''PrometheusConfigMap'']),
      ([''EksClusterStack'', ''FargateClusterFargate'', ''PrometheusDeployment''],
        [''EksClusterStack'', ''FargateClusterFargate'', ''prometheus-sa'']),
      ([''EksClusterStack'', ''FargateClusterFargate'', ''PrometheusDeployment''],
        [''EksClusterStack'', ''FargateClusterFargate'', ''PrometheusClusterRoleBinding'']),
      ([''EksClusterStack'', ''FargateClusterFargate'', ''PrometheusService''],
        [''EksClusterStack'', ''FargateClusterFargate'', ''PrometheusDeployment'']),
      ([''EksClusterStack'', ''Prometheus''],
        [''EksClusterStack'']),
      ([''EksClusterStack'', ''Prometheus''],
        [''EksClusterStack'', ''FargateClusterFargate'', ''FargateMonitoringNamespace'']),
      ([''EksClusterStack'', ''FargateClusterFargate'', ''PrometheusAdapterDeployment''],
        [''EksClusterStack'', ''FargateClusterFargate'', ''PrometheusAdapterConfig'']),
      ([''EksClusterStack'', ''FargateClusterFargate'', ''PrometheusAdapterDeployment''],
        [''EksClusterStack'', ''FargateClusterFargate'', ''prometheus-adapter-sa'']),
      ([''EksClusterStack'', ''FargateClusterFargate'', ''PrometheusAdapterService''],
        [''EksClusterStack'', ''FargateClusterFargate'', ''PrometheusAdapterDeployment'']),
      ([''EksClusterStack'', ''FargateClusterFargate'', ''PrometheusAdapterAPIService''],
        [''EksClusterStack'', ''FargateClusterFargate'', ''PrometheusAdapterService'']),
      ([''EksClusterStack'', ''PrometheusAdapter''],
        [''EksClusterStack'']),
      ([''EksClusterStack'', ''PrometheusAdapter''],
        [''EksClusterStack'', ''Prometheus'']),
      ([''EksClusterStack'', ''PrometheusAdapter''],
        [''EksClusterStack'', ''FargateClusterFargate'', ''FargateMonitoringNamespace'']),
      ([''EksClusterStack'', ''FargateClusterFargate'', ''SampleMetricsAppService''],
        [''EksClusterStack'', ''FargateClusterFargate'', ''SampleMetricsAppDeployment'']),
      ([''EksClusterStack'', ''FargateClusterFargate'', ''SampleMetricsAppHPA''],
        [''EksClusterStack'', ''FargateClusterFargate'', ''SampleMetricsAppDeployment'']),
      ([''EksClusterStack'', ''SampleMetricsApp''],
        [''EksClusterStack'', ''PrometheusAdapter'']),
      ([''EksClusterStack'', ''FargateClusterFargate'', ''OtelCollectorSA''],
        [''EksClusterStack'', ''FargateClusterFargate'', ''FargateOpenTelemetryNamespace'']),
      ([''EksClusterStack'', ''FargateClusterFargate'', ''OtelCollectorRoleBinding''],
        [''EksClusterStack'', ''FargateClusterFargate'', ''OtelCollectorRole'']),
      ([''EksClusterStack'', ''FargateClusterFargate'', ''OtelCollectorRoleBinding''],
        [''EksClusterStack'', ''FargateClusterFargate'', ''OtelCollectorSA'']),
      ([''EksClusterStack'', ''FargateClusterFargate'', ''OtelCollectorConfig''],
        [''EksClusterStack'', ''FargateClusterFargate'', ''FargateOpenTelemetryNamespace'']),
      ([''EksClusterStack'', ''FargateClusterFargate'', ''OtelCollectorDeployment''],
        [''EksClusterStack'', ''FargateClusterFargate'', ''OtelCollectorConfig'']),
      ([''EksClusterStack'', ''FargateClusterFargate'', ''OtelCollectorDeployment''],
        [''EksClusterStack'', ''FargateClusterFargate'', ''OtelCollectorRoleBinding'']),
      ([''EksClusterStack'', ''FargateClusterFargate'', ''OtelCollectorService''],
        [''EksClusterStack'', ''FargateClusterFargate'', ''OtelCollectorDeployment'']),
      ([''EksClusterStack'', ''FargateClusterFargate'', ''OtelSampleAppDeployment''],
        [''EksClusterStack'', ''FargateClusterFargate'', ''OtelCollectorService'']),
      ([''EksClusterStack'', ''FargateClusterFargate'', ''OtelSampleAppService''],
        [''EksClusterStack'', ''FargateClusterFargate'', ''OtelSampleAppDeployment'']),
      ([''EksClusterStack'', ''FargateClusterFargate'', ''OtelSampleAppHPA''],
        [''EksClusterStack'', ''FargateClusterFargate'', ''OtelSampleAppDeployment'']),
      ([''EksClusterStack'', ''OtelSampleApp''],
        [''EksClusterStack'', ''FargateClusterFargate'', ''FargateOpenTelemetryNamespace'']),
      ([''EksClusterStack'', ''OtelSampleApp''],
        [''EksClusterStack'', ''PrometheusAdapter'']),
      ([''EksClusterStack'', ''FargateClusterFargate'', ''GoOtelAppService''],
        [''EksClusterStack'', ''FargateClusterFargate'', ''GoOtelAppDeployment'']),
      ([''EksClusterStack'', ''FargateClusterFargate'', ''GoOtelAppHPA''],
        [''EksClusterStack'', ''FargateClusterFargate'', ''GoOtelAppDeployment'']),
      ([''EksClusterStack'', ''GoOtelSampleApp''],
        [''EksClusterStack'', ''PrometheusAdapter'']),
      ([''EksClusterStack'', ''FargateClusterFargate'', ''JavaOtelSampleAppService''],
        [''EksClusterStack'', ''FargateClusterFargate'', ''JavaOtelSampleAppDeployment'']),
      ([''EksClusterStack'', ''FargateClusterFargate'', ''JavaOtelSampleAppHPA''],
        [''EksClusterStack'', ''FargateClusterFargate'', ''JavaOtelSampleAppDeployment'']),
      ([''EksClusterStack'', ''JavaOtelSampleApp''],
        [''EksClusterStack'', ''PrometheusAdapter'']),
      ([''EksClusterStack''],
        [''NetworkStack'']),
      ([''EksClusterStack''],
        [''KubectlLayerStack'']),
      ([''EksClusterStack''],
        [''ObservabilityStack''])]"
  by (simp add: app_def config_def eks_fargate_development construct_defs Let_def)

lemma paths_auto_mode:
  assumes "compute_mode ctx \<noteq> ''fargate''"
  shows "manifest_of ctx i = [''EksClusterStack'', ''AutoModeClusterAutomode'', i]"
    and "opentelemetry_namespace_of [''EksClusterStack''] (eks (config (compute_mode ctx) acct rgn)) =
           [''EksClusterStack'', ''AutoModeClusterAutomode'', ''AutomodeOpenTelemetryNamespace'']"
    and "monitoring_namespace_of [''EksClusterStack''] (eks (config (compute_mode ctx) acct rgn)) =
           [''EksClusterStack'', ''AutoModeClusterAutomode'', ''AutomodeMonitoringNamespace'']"
    and "cluster_of [''EksClusterStack''] (eks (config (compute_mode ctx) acct rgn)) =
           [''EksClusterStack'', ''AutoModeClusterAutomode'']"
  using assms
  by (simp_all add: manifest_of_def config_def cluster_of_def opentelemetry_namespace_of_def
        monitoring_namespace_of_def eks_development)

lemma paths_fargate:
  assumes "compute_mode ctx = ''fargate''"
  shows "manifest_of ctx i = [''EksClusterStack'', ''FargateClusterFargate'', i]"
    and "opentelemetry_namespace_of [''EksClusterStack''] (eks (config (compute_mode ctx) acct rgn)) =
           [''EksClusterStack'', ''FargateClusterFargate'', ''FargateOpenTelemetryNamespace'']"
    and "monitoring_namespace_of [''EksClusterStack''] (eks (config (compute_mode ctx) acct rgn)) =
           [''EksClusterStack'', ''FargateClusterFargate'', ''FargateMonitoringNamespace'']"
    and "cluster_of [''EksClusterStack''] (eks (config (compute_mode ctx) acct rgn)) =
           [''EksClusterStack'', ''FargateClusterFargate'']"
    and "fargate_profile_of [''EksClusterStack''] (eks (config (compute_mode ctx) acct rgn)) ns =
           [''EksClusterStack'', ''FargateClusterFargate'', ns @ ''-fargate-profile'']"
  using assms
  by (simp_all add: manifest_of_def config_def cluster_of_def opentelemetry_namespace_of_def
        monitoring_namespace_of_def fargate_profile_of_def eks_fargate_development)

section \<open>Paths of dependency edges\<close>

lemma dependency_iff: "(r, p) \<in> dependency ds \<longleftrightarrow> depends_on ds r p"
  by (auto simp add: dependency_def depends_on_def)

lemma precedes_edge: "depends_on ds r p \<Longrightarrow> precedes ds p r"
  by (simp add: precedes_def dependency_iff r_into_trancl)

lemma closed_under_step:
  assumes "closed_under ds S" and "r \<in> set S" and "depends_on ds r p"
  shows "p \<in> set S"
proof -
  from assms(3) obtain s t where e: "(s, t) \<in> set (edges_of ds)"
    and sr: "prefix s r" and tp: "prefix t p" and n: "p \<in> set (nodes_of ds)"
    by (auto simp add: depends_on_def list_ex_iff)
  from assms(1) e have "edge_ok S (s, t)"
    by (simp add: closed_under_def list_all_iff)
  with sr assms(2) have t: "t \<in> set S"
    by (auto simp add: edge_ok_def list_ex_iff split: if_splits)
  from assms(1) n have "node_ok S p"
    by (simp add: closed_under_def list_all_iff)
  with t tp show ?thesis
    by (auto simp add: node_ok_def list_ex_iff split: if_splits)
qed

lemma closed_under_path:
  assumes "closed_under ds S" and "r \<in> set S" and "(r, p) \<in> (dependency ds)\<^sup>+"
  shows "p \<in> set S"
  using assms(3,2)
proof (induction rule: trancl_induct)
  case (base y)
  with assms(1) show ?case by (auto simp add: dependency_iff dest: closed_under_step)
next
  case (step y z)
  with assms(1) show ?case by (auto simp add: dependency_iff dest: closed_under_step)
qed

lemma not_precedes:
  "closed_under ds S \<Longrightarrow> r \<in> set S \<Longrightarrow> p \<notin> set S \<Longrightarrow> \<not> precedes ds p r"
  unfolding precedes_def using closed_under_path by blast

section \<open>Closed sets of constructs\<close>

text \<open>The rewrite rules that evaluate a test on the explicit lists of a graph.\<close>

lemmas eval_rules =
  list.pred_inject list_ex_Nil_iff list_ex_Cons_iff fst_conv snd_conv case_prod_conv
  Cons_prefix_Cons prefix_Nil Nil_prefix list.inject list.distinct char.inject
  simp_thms if_True if_False list.set insert_iff empty_iff list.map append.simps
  de_Morgan_disj

lemma workload_closure: "closed_under (app ctx acct rgn) (workload_predecessors ctx)"
proof (cases "compute_mode ctx = ''fargate''")
  case True
  show ?thesis
    by (simp only: closed_under_def edge_ok_def node_ok_def workload_predecessors_def collector_chain_def other_stacks_def
          paths_fargate [OF True] app_fargate [OF True] eval_rules)
next
  case False
  show ?thesis
    by (simp only: closed_under_def edge_ok_def node_ok_def workload_predecessors_def collector_chain_def other_stacks_def
          paths_auto_mode [OF False] app_auto_mode [OF False] eval_rules)
qed

lemma service_closure: "closed_under (app ctx acct rgn) (service_predecessors ctx)"
proof (cases "compute_mode ctx = ''fargate''")
  case True
  show ?thesis
    by (simp only: closed_under_def edge_ok_def node_ok_def service_predecessors_def collector_chain_def other_stacks_def
          paths_fargate [OF True] app_fargate [OF True] eval_rules)
next
  case False
  show ?thesis
    by (simp only: closed_under_def edge_ok_def node_ok_def service_predecessors_def collector_chain_def other_stacks_def
          paths_auto_mode [OF False] app_auto_mode [OF False] eval_rules)
qed

lemma adapter_closure: "closed_under (app ctx acct rgn) (adapter_predecessors ctx)"
proof (cases "compute_mode ctx = ''fargate''")
  case True
  show ?thesis
    by (simp only: closed_under_def edge_ok_def node_ok_def adapter_predecessors_def other_stacks_def
          paths_fargate [OF True] app_fargate [OF True] eval_rules)
next
  case False
  show ?thesis
    by (simp only: closed_under_def edge_ok_def node_ok_def adapter_predecessors_def other_stacks_def
          paths_auto_mode [OF False] app_auto_mode [OF False] eval_rules)
qed

lemma fargate_profile_list:
  assumes "compute_mode ctx = ''fargate''"
  shows "fargate_profiles (compute (eks (config (compute_mode ctx) acct rgn))) =
           [''default'', ''monitoring'', ''opentelemetry'', ''kube-system'']"
  using assms by (simp add: config_def eks_fargate_development)

lemma profile_closure:
  assumes "compute_mode ctx = ''fargate''"
  shows "closed_under (app ctx acct rgn) (profile_predecessors ctx)"
  by (simp only: closed_under_def edge_ok_def node_ok_def profile_predecessors_def other_stacks_def
        fargate_profile_list [OF assms] paths_fargate [OF assms] app_fargate [OF assms]
        eval_rules)

text \<open>What the sets hold and what they leave out.\<close>

lemma workload_predecessors_members:
  assumes "i \<in> set
     [''SampleMetricsAppHPA'', ''OtelSampleAppHPA'', ''GoOtelAppHPA'', ''JavaOtelSampleAppHPA'',
      ''SampleMetricsAppDeployment'', ''OtelSampleAppDeployment'', ''GoOtelAppDeployment'',
      ''JavaOtelSampleAppDeployment'']"
  shows "manifest_of ctx i \<in> set (workload_predecessors ctx)"
  using assms by (auto simp add: workload_predecessors_def)

lemma workload_predecessors_leave_out:
  assumes "i \<in> set
     [''SampleMetricsAppService'', ''OtelSampleAppService'', ''GoOtelAppService'',
      ''JavaOtelSampleAppService'', ''PrometheusAdapterDeployment'',
      ''PrometheusAdapterAPIService'']"
  shows "manifest_of ctx i \<notin> set (workload_predecessors ctx)"
    and "[''EksClusterStack'', ''EnableAutoMode''] \<notin> set (workload_predecessors ctx)"
proof -
  show "manifest_of ctx i \<notin> set (workload_predecessors ctx)"
  proof (cases "compute_mode ctx = ''fargate''")
    case True
    from assms show ?thesis
      unfolding list.set insert_iff empty_iff
      by (elim disjE FalseE; hypsubst)
         (simp_all only: workload_predecessors_def collector_chain_def other_stacks_def paths_fargate [OF True] eval_rules)
  next
    case False
    from assms show ?thesis
      unfolding list.set insert_iff empty_iff
      by (elim disjE FalseE; hypsubst)
         (simp_all only: workload_predecessors_def collector_chain_def other_stacks_def paths_auto_mode [OF False] eval_rules)
  qed
  show "[''EksClusterStack'', ''EnableAutoMode''] \<notin> set (workload_predecessors ctx)"
  proof (cases "compute_mode ctx = ''fargate''")
    case True
    show ?thesis by (simp only: workload_predecessors_def collector_chain_def other_stacks_def paths_fargate [OF True] eval_rules)
  next
    case False
    show ?thesis by (simp only: workload_predecessors_def collector_chain_def other_stacks_def paths_auto_mode [OF False] eval_rules)
  qed
qed

lemma service_predecessors_members:
  assumes "i \<in> set
     [''SampleMetricsAppService'', ''OtelSampleAppService'', ''GoOtelAppService'',
      ''JavaOtelSampleAppService'']"
  shows "manifest_of ctx i \<in> set (service_predecessors ctx)"
  using assms by (auto simp add: service_predecessors_def)

lemma service_predecessors_leave_out:
  assumes "i \<in> set
     [''SampleMetricsAppHPA'', ''OtelSampleAppHPA'', ''GoOtelAppHPA'', ''JavaOtelSampleAppHPA'']"
  shows "manifest_of ctx i \<notin> set (service_predecessors ctx)"
proof (cases "compute_mode ctx = ''fargate''")
  case True
  from assms show ?thesis
    unfolding list.set insert_iff empty_iff
    by (elim disjE FalseE; hypsubst)
       (simp_all only: service_predecessors_def collector_chain_def other_stacks_def paths_fargate [OF True] eval_rules)
next
  case False
  from assms show ?thesis
    unfolding list.set insert_iff empty_iff
    by (elim disjE FalseE; hypsubst)
       (simp_all only: service_predecessors_def collector_chain_def other_stacks_def paths_auto_mode [OF False] eval_rules)
qed

lemma adapter_predecessors_members:
  assumes "i \<in> set
     [''PrometheusAdapterAPIService'', ''PrometheusAdapterDeployment'',
      ''PrometheusAdapterBinding'']"
  shows "manifest_of ctx i \<in> set (adapter_predecessors ctx)"
  using assms by (auto simp add: adapter_predecessors_def)

lemma adapter_predecessors_leave_out:
  assumes "i \<in> set [''PrometheusDeployment'', ''PrometheusAdapterRole'']"
  shows "manifest_of ctx i \<notin> set (adapter_predecessors ctx)"
proof (cases "compute_mode ctx = ''fargate''")
  case True
  from assms show ?thesis
    unfolding list.set insert_iff empty_iff
    by (elim disjE FalseE; hypsubst)
       (simp_all only: adapter_predecessors_def other_stacks_def paths_fargate [OF True] eval_rules)
next
  case False
  from assms show ?thesis
    unfolding list.set insert_iff empty_iff
    by (elim disjE FalseE; hypsubst)
       (simp_all only: adapter_predecessors_def other_stacks_def paths_auto_mode [OF False] eval_rules)
qed

section \<open>Declared edges between constructs\<close>

lemma manifest_edges:
  assumes "(s, p) \<in> set
     [(''SampleMetricsAppService'', ''SampleMetricsAppDeployment''),
      (''SampleMetricsAppHPA'', ''SampleMetricsAppDeployment''),
      (''OtelSampleAppService'', ''OtelSampleAppDeployment''),
      (''OtelSampleAppHPA'', ''OtelSampleAppDeployment''),
      (''GoOtelAppService'', ''GoOtelAppDeployment''),
      (''GoOtelAppHPA'', ''GoOtelAppDeployment''),
      (''JavaOtelSampleAppService'', ''JavaOtelSampleAppDeployment''),
      (''JavaOtelSampleAppHPA'', ''JavaOtelSampleAppDeployment''),
      (''PrometheusClusterRoleBinding'', ''PrometheusClusterRole''),
      (''OtelCollectorRoleBinding'', ''OtelCollectorRole'')]"
  shows "depends_on (app ctx acct rgn) (manifest_of ctx s) (manifest_of ctx p)"
proof (cases "compute_mode ctx = ''fargate''")
  case True
  from assms show ?thesis
    unfolding list.set insert_iff empty_iff
    by (elim disjE FalseE; elim Pair_inject; hypsubst)
       (simp_all only: depends_on_def paths_fargate [OF True] app_fargate [OF True]
          eval_rules)
next
  case False
  from assms show ?thesis
    unfolding list.set insert_iff empty_iff
    by (elim disjE FalseE; elim Pair_inject; hypsubst)
       (simp_all only: depends_on_def paths_auto_mode [OF False] app_auto_mode [OF False]
          eval_rules)
qed

lemma manifests_declared:
  assumes "i \<in> set
     [''SampleMetricsAppHPA'', ''OtelSampleAppHPA'', ''GoOtelAppHPA'', ''JavaOtelSampleAppHPA'',
      ''PrometheusAdapterDeployment'', ''PrometheusAdapterAPIService'',
      ''PrometheusDeployment'', ''PrometheusAdapterRole'', ''PrometheusAdapterBinding'',
      ''SampleMetricsAppDeployment'', ''OtelSampleAppDeployment'', ''GoOtelAppDeployment'',
      ''JavaOtelSampleAppDeployment'', ''MonitoringNamespacePrometheus'',
      ''SampleMetricsAppService'', ''OtelSampleAppService'', ''GoOtelAppService'',
      ''JavaOtelSampleAppService'']"
  shows "manifest_of ctx i \<in> set (nodes_of (app ctx acct rgn))"
proof (cases "compute_mode ctx = ''fargate''")
  case True
  from assms show ?thesis
    unfolding list.set insert_iff empty_iff
    by (elim disjE FalseE; hypsubst)
       (simp_all only: paths_fargate [OF True] app_fargate [OF True] eval_rules)
next
  case False
  from assms show ?thesis
    unfolding list.set insert_iff empty_iff
    by (elim disjE FalseE; hypsubst)
       (simp_all only: paths_auto_mode [OF False] app_auto_mode [OF False] eval_rules)
qed

lemma auto_mode_edges:
  assumes "compute_mode ctx \<noteq> ''fargate''"
  shows "depends_on (app ctx acct rgn) [''EksClusterStack'', ''AutoModeCoreDnsAddon'']
           [''EksClusterStack'', ''EnableAutoMode'']"
    and "depends_on (app ctx acct rgn) [''EksClusterStack'', ''AutoModePodIdentityAgentAddon'']
           [''EksClusterStack'', ''EnableAutoMode'']"
    and "depends_on (app ctx acct rgn) [''EksClusterStack'', ''AutoModeVpcCniAddon'']
           [''EksClusterStack'', ''EnableAutoMode'']"
    and "depends_on (app ctx acct rgn) [''EksClusterStack'', ''AutoModeKubeProxyAddon'']
           [''EksClusterStack'', ''EnableAutoMode'']"
    and "depends_on (app ctx acct rgn) [''EksClusterStack'', ''EnableAutoMode'']
           [''EksClusterStack'', ''AutoModeClusterAutomode'']"
    and "depends_on (app ctx acct rgn) [''EksClusterStack'', ''EnableAutoMode'']
           [''EksClusterStack'', ''AutoModeClusterAutomode'', ''SampleMetricsAppDeployment'']"
  by (simp_all only: depends_on_def app_auto_mode [OF assms] eval_rules)


section \<open>No construct is declared twice\<close>

text \<open>
  The CDK rejects a second construct with the same identifier in a scope. Neither graph
  declares a path twice, so no declaration of the build script fails.
\<close>

lemma declared_once: "distinct (nodes_of (app ctx acct rgn))"
proof (cases "compute_mode ctx = ''fargate''")
  case True
  show ?thesis
    by (simp only: app_fargate [OF True] distinct.simps eval_rules)
next
  case False
  show ?thesis
    by (simp only: app_auto_mode [OF False] distinct.simps eval_rules)
qed

section \<open>Properties of the dependency graph\<close>

subsection \<open>Autoscalers and the metrics adapter\<close>

lemma hpa_not_after_adapter:
  assumes "h \<in> set [''SampleMetricsAppHPA'', ''OtelSampleAppHPA'', ''GoOtelAppHPA'',
                       ''JavaOtelSampleAppHPA'']"
    and "a \<in> set [''PrometheusAdapterDeployment'', ''PrometheusAdapterAPIService'']"
  shows "\<not> precedes (app ctx acct rgn) (manifest_of ctx a) (manifest_of ctx h)"
proof (rule not_precedes [OF workload_closure])
  from assms(1) show "manifest_of ctx h \<in> set (workload_predecessors ctx)"
    by (intro workload_predecessors_members) auto
  from assms(2) show "manifest_of ctx a \<notin> set (workload_predecessors ctx)"
    by (intro workload_predecessors_leave_out) auto
qed

lemma adapter_not_after_prometheus:
  assumes "a \<in> set [''PrometheusAdapterDeployment'', ''PrometheusAdapterAPIService'']"
  shows "\<not> precedes (app ctx acct rgn) (manifest_of ctx ''PrometheusDeployment'')
           (manifest_of ctx a)"
proof (rule not_precedes [OF adapter_closure])
  from assms show "manifest_of ctx a \<in> set (adapter_predecessors ctx)"
    by (intro adapter_predecessors_members) auto
  show "manifest_of ctx ''PrometheusDeployment'' \<notin> set (adapter_predecessors ctx)"
    by (intro adapter_predecessors_leave_out) simp
qed

text \<open>
  C3. The claim: the adapter Deployment and APIService precede each of the four
  autoscalers, and the adapter comes after the Prometheus Deployment. In the build for
  the default context (Auto Mode) all seven manifests are declared, and none of these
  orderings holds: \<^verbatim>\<open>app.py\<close> adds its dependencies to the wrapper constructs
  \<^verbatim>\<open>sample_app\<close>, \<^verbatim>\<open>otel_app\<close>, \<^verbatim>\<open>go_otel_app\<close>, \<^verbatim>\<open>java_otel_app\<close>,
  \<^verbatim>\<open>prometheus_adapter\<close> and \<^verbatim>\<open>prometheus\<close>, while the manifests are declared in
  the scope of the cluster and so lie in the scope of none of those constructs.
\<close>

theorem autoscalers_not_ordered_after_adapter:
  "manifest_of None ''SampleMetricsAppHPA'' \<in> set (nodes_of (app None None None)) \<and>
   manifest_of None ''OtelSampleAppHPA'' \<in> set (nodes_of (app None None None)) \<and>
   manifest_of None ''GoOtelAppHPA'' \<in> set (nodes_of (app None None None)) \<and>
   manifest_of None ''JavaOtelSampleAppHPA'' \<in> set (nodes_of (app None None None)) \<and>
   manifest_of None ''PrometheusAdapterDeployment'' \<in> set (nodes_of (app None None None)) \<and>
   manifest_of None ''PrometheusAdapterAPIService'' \<in> set (nodes_of (app None None None)) \<and>
   manifest_of None ''PrometheusDeployment'' \<in> set (nodes_of (app None None None)) \<and>
   \<not> precedes (app None None None) (manifest_of None ''PrometheusAdapterDeployment'')
       (manifest_of None ''SampleMetricsAppHPA'') \<and>
   \<not> precedes (app None None None) (manifest_of None ''PrometheusAdapterAPIService'')
       (manifest_of None ''SampleMetricsAppHPA'') \<and>
   \<not> precedes (app None None None) (manifest_of None ''PrometheusAdapterDeployment'')
       (manifest_of None ''OtelSampleAppHPA'') \<and>
   \<not> precedes (app None None None) (manifest_of None ''PrometheusAdapterAPIService'')
       (manifest_of None ''OtelSampleAppHPA'') \<and>
   \<not> precedes (app None None None) (manifest_of None ''PrometheusAdapterDeployment'')
       (manifest_of None ''GoOtelAppHPA'') \<and>
   \<not> precedes (app None None None) (manifest_of None ''PrometheusAdapterAPIService'')
       (manifest_of None ''GoOtelAppHPA'') \<and>
   \<not> precedes (app None None None) (manifest_of None ''PrometheusAdapterDeployment'')
       (manifest_of None ''JavaOtelSampleAppHPA'') \<and>
   \<not> precedes (app None None None) (manifest_of None ''PrometheusAdapterAPIService'')
       (manifest_of None ''JavaOtelSampleAppHPA'') \<and>
   \<not> precedes (app None None None) (manifest_of None ''PrometheusDeployment'')
       (manifest_of None ''PrometheusAdapterDeployment'') \<and>
   \<not> precedes (app None None None) (manifest_of None ''PrometheusDeployment'')
       (manifest_of None ''PrometheusAdapterAPIService'')"
  by (intro conjI manifests_declared hpa_not_after_adapter adapter_not_after_prometheus)
     simp_all

subsection \<open>Order within a workload\<close>

lemma workload_edges:
  assumes "(d, s, h) \<in> set
     [(''SampleMetricsAppDeployment'', ''SampleMetricsAppService'', ''SampleMetricsAppHPA''),
      (''OtelSampleAppDeployment'', ''OtelSampleAppService'', ''OtelSampleAppHPA''),
      (''GoOtelAppDeployment'', ''GoOtelAppService'', ''GoOtelAppHPA''),
      (''JavaOtelSampleAppDeployment'', ''JavaOtelSampleAppService'',
       ''JavaOtelSampleAppHPA'')]"
  shows "precedes (app ctx acct rgn) (manifest_of ctx d) (manifest_of ctx s) \<and>
         precedes (app ctx acct rgn) (manifest_of ctx d) (manifest_of ctx h) \<and>
         \<not> precedes (app ctx acct rgn) (manifest_of ctx s) (manifest_of ctx h) \<and>
         \<not> precedes (app ctx acct rgn) (manifest_of ctx h) (manifest_of ctx s)"
proof (intro conjI)
  from assms show "precedes (app ctx acct rgn) (manifest_of ctx d) (manifest_of ctx s)"
    by (intro precedes_edge manifest_edges) auto
  from assms show "precedes (app ctx acct rgn) (manifest_of ctx d) (manifest_of ctx h)"
    by (intro precedes_edge manifest_edges) auto
  show "\<not> precedes (app ctx acct rgn) (manifest_of ctx s) (manifest_of ctx h)"
  proof (rule not_precedes [OF workload_closure])
    from assms show "manifest_of ctx h \<in> set (workload_predecessors ctx)"
      by (intro workload_predecessors_members) auto
    from assms show "manifest_of ctx s \<notin> set (workload_predecessors ctx)"
      by (intro workload_predecessors_leave_out) auto
  qed
  show "\<not> precedes (app ctx acct rgn) (manifest_of ctx h) (manifest_of ctx s)"
  proof (rule not_precedes [OF service_closure])
    from assms show "manifest_of ctx s \<in> set (service_predecessors ctx)"
      by (intro service_predecessors_members) auto
    from assms show "manifest_of ctx h \<notin> set (service_predecessors ctx)"
      by (intro service_predecessors_leave_out) auto
  qed
qed

text \<open>
  C4. The claim: in each of the four workloads the Deployment precedes the Service and
  the Service precedes the autoscaler. In the build for the default context (Auto Mode)
  the Service and the autoscaler of every workload are declared and the Deployment
  precedes both, but the Service does not precede the autoscaler: each construct gives
  its autoscaler a dependency on the Deployment only. \<^verbatim>\<open>app.py\<close> announces each of
  the four workloads as \<^verbatim>\<open>HPA created last\<close>.
\<close>

theorem service_not_ordered_before_hpa:
  "manifest_of None ''SampleMetricsAppService'' \<in> set (nodes_of (app None None None)) \<and>
   manifest_of None ''SampleMetricsAppHPA'' \<in> set (nodes_of (app None None None)) \<and>
   manifest_of None ''OtelSampleAppService'' \<in> set (nodes_of (app None None None)) \<and>
   manifest_of None ''OtelSampleAppHPA'' \<in> set (nodes_of (app None None None)) \<and>
   manifest_of None ''GoOtelAppService'' \<in> set (nodes_of (app None None None)) \<and>
   manifest_of None ''GoOtelAppHPA'' \<in> set (nodes_of (app None None None)) \<and>
   manifest_of None ''JavaOtelSampleAppService'' \<in> set (nodes_of (app None None None)) \<and>
   manifest_of None ''JavaOtelSampleAppHPA'' \<in> set (nodes_of (app None None None)) \<and>
   precedes (app None None None) (manifest_of None ''SampleMetricsAppDeployment'')
     (manifest_of None ''SampleMetricsAppService'') \<and>
   precedes (app None None None) (manifest_of None ''SampleMetricsAppDeployment'')
     (manifest_of None ''SampleMetricsAppHPA'') \<and>
   \<not> precedes (app None None None) (manifest_of None ''SampleMetricsAppService'')
       (manifest_of None ''SampleMetricsAppHPA'') \<and>
   precedes (app None None None) (manifest_of None ''OtelSampleAppDeployment'')
     (manifest_of None ''OtelSampleAppService'') \<and>
   precedes (app None None None) (manifest_of None ''OtelSampleAppDeployment'')
     (manifest_of None ''OtelSampleAppHPA'') \<and>
   \<not> precedes (app None None None) (manifest_of None ''OtelSampleAppService'')
       (manifest_of None ''OtelSampleAppHPA'') \<and>
   precedes (app None None None) (manifest_of None ''GoOtelAppDeployment'')
     (manifest_of None ''GoOtelAppService'') \<and>
   precedes (app None None None) (manifest_of None ''GoOtelAppDeployment'')
     (manifest_of None ''GoOtelAppHPA'') \<and>
   \<not> precedes (app None None None) (manifest_of None ''GoOtelAppService'')
       (manifest_of None ''GoOtelAppHPA'') \<and>
   precedes (app None None None) (manifest_of None ''JavaOtelSampleAppDeployment'')
     (manifest_of None ''JavaOtelSampleAppService'') \<and>
   precedes (app None None None) (manifest_of None ''JavaOtelSampleAppDeployment'')
     (manifest_of None ''JavaOtelSampleAppHPA'') \<and>
   \<not> precedes (app None None None) (manifest_of None ''JavaOtelSampleAppService'')
       (manifest_of None ''JavaOtelSampleAppHPA'')"
proof -
  have declared:
    "manifest_of None ''SampleMetricsAppService'' \<in> set (nodes_of (app None None None))"
    "manifest_of None ''SampleMetricsAppHPA'' \<in> set (nodes_of (app None None None))"
    "manifest_of None ''OtelSampleAppService'' \<in> set (nodes_of (app None None None))"
    "manifest_of None ''OtelSampleAppHPA'' \<in> set (nodes_of (app None None None))"
    "manifest_of None ''GoOtelAppService'' \<in> set (nodes_of (app None None None))"
    "manifest_of None ''GoOtelAppHPA'' \<in> set (nodes_of (app None None None))"
    "manifest_of None ''JavaOtelSampleAppService'' \<in> set (nodes_of (app None None None))"
    "manifest_of None ''JavaOtelSampleAppHPA'' \<in> set (nodes_of (app None None None))"
    by (intro manifests_declared; simp)+
  have sample: "(''SampleMetricsAppDeployment'', ''SampleMetricsAppService'',
      ''SampleMetricsAppHPA'') \<in> set
     [(''SampleMetricsAppDeployment'', ''SampleMetricsAppService'', ''SampleMetricsAppHPA''),
      (''OtelSampleAppDeployment'', ''OtelSampleAppService'', ''OtelSampleAppHPA''),
      (''GoOtelAppDeployment'', ''GoOtelAppService'', ''GoOtelAppHPA''),
      (''JavaOtelSampleAppDeployment'', ''JavaOtelSampleAppService'',
       ''JavaOtelSampleAppHPA'')]"
    by simp
  have otel: "(''OtelSampleAppDeployment'', ''OtelSampleAppService'',
      ''OtelSampleAppHPA'') \<in> set
     [(''SampleMetricsAppDeployment'', ''SampleMetricsAppService'', ''SampleMetricsAppHPA''),
      (''OtelSampleAppDeployment'', ''OtelSampleAppService'', ''OtelSampleAppHPA''),
      (''GoOtelAppDeployment'', ''GoOtelAppService'', ''GoOtelAppHPA''),
      (''JavaOtelSampleAppDeployment'', ''JavaOtelSampleAppService'',
       ''JavaOtelSampleAppHPA'')]"
    by simp
  have go: "(''GoOtelAppDeployment'', ''GoOtelAppService'', ''GoOtelAppHPA'') \<in> set
     [(''SampleMetricsAppDeployment'', ''SampleMetricsAppService'', ''SampleMetricsAppHPA''),
      (''OtelSampleAppDeployment'', ''OtelSampleAppService'', ''OtelSampleAppHPA''),
      (''GoOtelAppDeployment'', ''GoOtelAppService'', ''GoOtelAppHPA''),
      (''JavaOtelSampleAppDeployment'', ''JavaOtelSampleAppService'',
       ''JavaOtelSampleAppHPA'')]"
    by simp
  have java: "(''JavaOtelSampleAppDeployment'', ''JavaOtelSampleAppService'',
      ''JavaOtelSampleAppHPA'') \<in> set
     [(''SampleMetricsAppDeployment'', ''SampleMetricsAppService'', ''SampleMetricsAppHPA''),
      (''OtelSampleAppDeployment'', ''OtelSampleAppService'', ''OtelSampleAppHPA''),
      (''GoOtelAppDeployment'', ''GoOtelAppService'', ''GoOtelAppHPA''),
      (''JavaOtelSampleAppDeployment'', ''JavaOtelSampleAppService'',
       ''JavaOtelSampleAppHPA'')]"
    by simp
  from declared
    workload_edges [OF sample, of None None None]
    workload_edges [OF otel, of None None None]
    workload_edges [OF go, of None None None]
    workload_edges [OF java, of None None None]
  show ?thesis by blast
qed

subsection \<open>ClusterRole and ClusterRoleBinding\<close>

text \<open>
  C5. The claim: every ClusterRoleBinding comes after the ClusterRole it references.
  The bindings of Prometheus and of the OpenTelemetry collector do; the binding of the
  Prometheus adapter has no dependency at all, so in the default build its ClusterRole
  does not precede it.
\<close>

theorem adapter_binding_not_after_role:
  "precedes (app None None None) (manifest_of None ''PrometheusClusterRole'')
     (manifest_of None ''PrometheusClusterRoleBinding'') \<and>
   precedes (app None None None) (manifest_of None ''OtelCollectorRole'')
     (manifest_of None ''OtelCollectorRoleBinding'') \<and>
   manifest_of None ''PrometheusAdapterRole'' \<in> set (nodes_of (app None None None)) \<and>
   manifest_of None ''PrometheusAdapterBinding'' \<in> set (nodes_of (app None None None)) \<and>
   \<not> precedes (app None None None) (manifest_of None ''PrometheusAdapterRole'')
       (manifest_of None ''PrometheusAdapterBinding'')"
proof (intro conjI)
  show "precedes (app None None None) (manifest_of None ''PrometheusClusterRole'')
     (manifest_of None ''PrometheusClusterRoleBinding'')"
    by (intro precedes_edge manifest_edges) simp
  show "precedes (app None None None) (manifest_of None ''OtelCollectorRole'')
     (manifest_of None ''OtelCollectorRoleBinding'')"
    by (intro precedes_edge manifest_edges) simp
  show "manifest_of None ''PrometheusAdapterRole'' \<in> set (nodes_of (app None None None))"
    by (intro manifests_declared) simp
  show "manifest_of None ''PrometheusAdapterBinding'' \<in> set (nodes_of (app None None None))"
    by (intro manifests_declared) simp
  show "\<not> precedes (app None None None) (manifest_of None ''PrometheusAdapterRole'')
       (manifest_of None ''PrometheusAdapterBinding'')"
  proof (rule not_precedes [OF adapter_closure])
    show "manifest_of None ''PrometheusAdapterBinding'' \<in> set (adapter_predecessors None)"
      by (intro adapter_predecessors_members) simp
    show "manifest_of None ''PrometheusAdapterRole'' \<notin> set (adapter_predecessors None)"
      by (intro adapter_predecessors_leave_out) simp
  qed
qed

subsection \<open>The Auto Mode enablement resource\<close>


lemma fargate_iff:
  "mode (compute (eks (config (compute_mode ctx) acct rgn))) = ''fargate'' \<longleftrightarrow>
   compute_mode ctx = ''fargate''"
  by (simp add: config_def eks_development eks_fargate_development)


text \<open>
  The enablement resource depends on the cluster construct, and the workload manifests
  lie in the scope of the cluster: the enablement resource waits for the Deployment, not
  the other way round.
\<close>

lemma enabler_waits_for_workload:
  "precedes (app None None None)
     [''EksClusterStack'', ''AutoModeClusterAutomode'', ''SampleMetricsAppDeployment'']
     [''EksClusterStack'', ''EnableAutoMode'']"
  by (intro precedes_edge auto_mode_edges) (simp add: compute_mode_def)



subsection \<open>Fargate profiles and namespaces\<close>

text \<open>
  C9. In Fargate mode, for every namespace in the configured \<^verbatim>\<open>fargate_profiles\<close>
  list, the Fargate profile is declared, no declared edge has it as its successor, and
  no path of dependency edges puts a Namespace manifest before it: neither of the two
  namespaces of \<^verbatim>\<open>_create_namespaces\<close> nor the one the Prometheus adapter declares.
\<close>

theorem fargate_profile_without_namespace_edge:
  assumes "mode (compute (eks (config (compute_mode ctx) acct rgn))) = ''fargate''"
    and "ns \<in> set (fargate_profiles (compute (eks (config (compute_mode ctx) acct rgn))))"
  shows "fargate_profile_of [''EksClusterStack''] (eks (config (compute_mode ctx) acct rgn)) ns
           \<in> set (nodes_of (app ctx acct rgn)) \<and>
         fargate_profile_of [''EksClusterStack''] (eks (config (compute_mode ctx) acct rgn)) ns
           \<notin> fst ` set (edges_of (app ctx acct rgn)) \<and>
         \<not> precedes (app ctx acct rgn)
             (monitoring_namespace_of [''EksClusterStack'']
                (eks (config (compute_mode ctx) acct rgn)))
             (fargate_profile_of [''EksClusterStack'']
                (eks (config (compute_mode ctx) acct rgn)) ns) \<and>
         \<not> precedes (app ctx acct rgn)
             (opentelemetry_namespace_of [''EksClusterStack'']
                (eks (config (compute_mode ctx) acct rgn)))
             (fargate_profile_of [''EksClusterStack'']
                (eks (config (compute_mode ctx) acct rgn)) ns) \<and>
         \<not> precedes (app ctx acct rgn)
             (manifest_of ctx ''MonitoringNamespacePrometheus'')
             (fargate_profile_of [''EksClusterStack'']
                (eks (config (compute_mode ctx) acct rgn)) ns)"
proof -
  from assms(1) have m: "compute_mode ctx = ''fargate''" by (simp add: fargate_iff)
  from assms(2) have ns: "ns \<in> set [''default'', ''monitoring'', ''opentelemetry'', ''kube-system'']"
    by (simp only: fargate_profile_list [OF m])
  let ?p = "[''EksClusterStack'', ''FargateClusterFargate'', ns @ ''-fargate-profile'']"
  have decl: "?p \<in> set (nodes_of (app ctx acct rgn))"
    using ns unfolding list.set insert_iff empty_iff
    by (elim disjE FalseE; hypsubst) (simp_all only: app_fargate [OF m] eval_rules)
  have src: "?p \<notin> fst ` set (edges_of (app ctx acct rgn))"
    using ns unfolding list.set insert_iff empty_iff
    by (elim disjE FalseE; hypsubst)
       (simp_all only: app_fargate [OF m] eval_rules image_insert image_empty)
  have mem: "?p \<in> set (profile_predecessors ctx)"
    using ns unfolding list.set insert_iff empty_iff
    by (elim disjE FalseE; hypsubst)
       (simp_all only: profile_predecessors_def other_stacks_def fargate_profile_list [OF m] paths_fargate [OF m] eval_rules)
  have out:
    "[''EksClusterStack'', ''FargateClusterFargate'', ''FargateMonitoringNamespace'']
       \<notin> set (profile_predecessors ctx)"
    "[''EksClusterStack'', ''FargateClusterFargate'', ''FargateOpenTelemetryNamespace'']
       \<notin> set (profile_predecessors ctx)"
    "[''EksClusterStack'', ''FargateClusterFargate'', ''MonitoringNamespacePrometheus'']
       \<notin> set (profile_predecessors ctx)"
    by (simp_all only: profile_predecessors_def other_stacks_def fargate_profile_list [OF m] paths_fargate [OF m] eval_rules)
  note cl = profile_closure [OF m, of acct rgn]
  show ?thesis
    unfolding paths_fargate [OF m]
    by (intro conjI decl src not_precedes [OF cl mem] out)
qed

theorem fargate_profile_without_namespace_edge_witness:
  "mode (compute (eks (config (compute_mode (Some ''fargate'')) None None))) = ''fargate'' \<and>
   ''monitoring'' \<in> set (fargate_profiles
      (compute (eks (config (compute_mode (Some ''fargate'')) None None)))) \<and>
   [''EksClusterStack'', ''FargateClusterFargate'', ''monitoring-fargate-profile'']
     \<in> set (nodes_of (app (Some ''fargate'') None None)) \<and>
   \<not> precedes (app (Some ''fargate'') None None)
       [''EksClusterStack'', ''FargateClusterFargate'', ''FargateMonitoringNamespace'']
       [''EksClusterStack'', ''FargateClusterFargate'', ''monitoring-fargate-profile'']"
proof -
  have c: "compute_mode (Some ''fargate'') = ''fargate''" by (simp add: compute_mode_def)
  have a: "mode (compute (eks (config (compute_mode (Some ''fargate'')) None None))) = ''fargate''"
    by (simp add: compute_mode_def config_def fargate_development_def)
  have b: "''monitoring'' \<in> set (fargate_profiles
      (compute (eks (config (compute_mode (Some ''fargate'')) None None))))"
    by (simp add: compute_mode_def config_def fargate_development_def)
  from fargate_profile_without_namespace_edge [OF a b] a b show ?thesis
    by (simp add: paths_fargate [OF c])
qed

end
